theory Spec2Isabelle
  imports Main
begin

section \<open>Text\<close>

text \<open>
  A Python \<open>str\<close> is a sequence of Unicode code points, modelled as a list of natural
  numbers. White space is the table of \<open>str.isspace\<close>, in full. The other functions of the
  standard library whose result is read off the Unicode character database (the classes
  \<open>\d\<close> and \<open>\D\<close> of \<open>re\<close>, \<open>int\<close> on a text, \<open>str.upper\<close>, \<open>str.lower\<close>,
  \<open>unicodedata.normalize\<close> and \<open>unicodedata.combining\<close>) are not part of the program:
  they are parameters of the model, collected in the record \<open>unicode\<close> below, and a
  theorem states what it needs of them. A parameter of type \<open>str\<close> that the source
  guards with \<open>x or ""\<close> is modelled by its text, \<open>None\<close> being the empty text.
\<close>

type_synonym ustr = "nat list"

definition U :: "string \<Rightarrow> ustr" where
  "U s = map of_char s"

definition isspace :: "nat \<Rightarrow> bool" where
  "isspace c \<longleftrightarrow>
     (9 \<le> c \<and> c \<le> 13) \<or> (28 \<le> c \<and> c \<le> 32) \<or> c = 133 \<or> c = 160 \<or> c = 5760 \<or>
     (8192 \<le> c \<and> c \<le> 8202) \<or> c = 8232 \<or> c = 8233 \<or> c = 8239 \<or> c = 8287 \<or>
     c = 12288"

text \<open>The digits of A1 notation, in which the store writes a range.\<close>

definition isdigit :: "nat \<Rightarrow> bool" where
  "isdigit c \<longleftrightarrow> 48 \<le> c \<and> c \<le> 57"

definition py_strip :: "ustr \<Rightarrow> ustr" where
  "py_strip s = rev (dropWhile isspace (rev (dropWhile isspace s)))"

definition startswith :: "ustr \<Rightarrow> ustr \<Rightarrow> bool" where
  "startswith s p \<longleftrightarrow> take (length p) s = p"

text \<open>\<open>int(s)\<close> on the digits of a row position, and \<open>str(n)\<close> on an integer.\<close>

definition int_of_digits :: "ustr \<Rightarrow> int" where
  "int_of_digits s = foldl (\<lambda>acc c. 10 * acc + (int c - 48)) 0 s"

function str_nat :: "nat \<Rightarrow> ustr" where
  "str_nat n = (if n < 10 then [48 + n] else str_nat (n div 10) @ [48 + n mod 10])"
  by pat_completeness auto
termination
  by (relation "measure id") auto

declare str_nat.simps [simp del]

definition str_int :: "int \<Rightarrow> ustr" where
  "str_int i = (if i < 0 then 45 # str_nat (nat (- i)) else str_nat (nat i))"

section \<open>Errors\<close>

text \<open>
  The exceptions the program raises, with the place that raises them in lieu of the
  message: \<open>ValueError\<close> is the validation error, \<open>RuntimeError\<close> the configuration or
  persistence error, \<open>HttpError\<close> the failure of a request to the spreadsheet service,
  \<open>LibraryError\<close> any exception raised inside \<open>qrcode\<close>, \<open>barcode\<close> or \<open>fpdf\<close>.
\<close>

datatype message =
    Telefone_obrigatorio
  | Telefone_sem_numeros
  | Telefone_11_digitos
  | Nome_obrigatorio
  | Selecione_area
  | Credenciais_ausentes
  | Spreadsheet_id_nao_configurado
  | Erro_ao_ler_aba
  | Coluna_area_nao_encontrada
  | Linha_nao_detectada ustr

datatype error = ValueError message | RuntimeError message | HttpError | LibraryError ustr

section \<open>The Unicode character database\<close>

text \<open>
  What the program takes from the character database and from the interpreter: whether a
  code point is a decimal digit (the class \<open>\d\<close>), the value \<open>int\<close> gives it, the
  greatest number of digits \<open>int\<close> converts (0 when there is no limit), the upper case
  of a code point (a text: \<open>str.upper\<close> maps code point by code point), the lower case
  of a text, its compatibility decomposition (NFKD), and whether a code point is a
  combining mark.
\<close>

record unicode =
  u_decimal :: "nat \<Rightarrow> bool"
  u_digit_value :: "nat \<Rightarrow> nat"
  u_max_str_digits :: nat
  u_upper :: "nat \<Rightarrow> nat list"
  u_lower :: "ustr \<Rightarrow> ustr"
  u_nfkd :: "ustr \<Rightarrow> ustr"
  u_combining :: "nat \<Rightarrow> bool"

definition py_upper :: "unicode \<Rightarrow> ustr \<Rightarrow> ustr" where
  "py_upper ucd s = concat (map (u_upper ucd) s)"

text \<open>
  \<open>int(s)\<close> on a text of decimal digits: \<open>None\<close> is the \<open>ValueError\<close> of a text with
  more digits than the interpreter converts.
\<close>

definition py_int :: "unicode \<Rightarrow> ustr \<Rightarrow> int option" where
  "py_int ucd s =
     (if u_max_str_digits ucd \<noteq> 0 \<and> length s > u_max_str_digits ucd then None
      else Some (foldl (\<lambda>acc c. 10 * acc + int (u_digit_value ucd c)) 0 s))"

section \<open>Normalizers\<close>

definition normalize_str :: "unicode \<Rightarrow> ustr \<Rightarrow> ustr" where
  "normalize_str ucd s =
     u_lower ucd (py_strip (filter (\<lambda>ch. \<not> u_combining ucd ch) (u_nfkd ucd s)))"

definition format_phone_number :: "unicode \<Rightarrow> ustr \<Rightarrow> error + ustr" where
  "format_phone_number ucd telefone =
     (let telefone = py_strip telefone in
      if telefone = [] then Inl (ValueError Telefone_obrigatorio)
      else
        let digits = filter (u_decimal ucd) telefone in
        if digits = [] then Inl (ValueError Telefone_sem_numeros)
        else
          let digits = (if startswith digits (U ''55'') \<and> length digits > 11
                        then drop 2 digits else digits) in
          if length digits \<noteq> 11 then Inl (ValueError Telefone_11_digitos)
          else
            let numero_local = drop (length digits - 9) digits in
            Inr (U ''(92) '' @ take 5 numero_local @ U ''-'' @ drop 5 numero_local))"

definition format_name_upper :: "unicode \<Rightarrow> ustr \<Rightarrow> ustr" where
  "format_name_upper ucd nome = py_upper ucd (py_strip nome)"

definition truthy :: "unicode \<Rightarrow> ustr \<Rightarrow> bool" where
  "truthy ucd v \<longleftrightarrow>
     normalize_str ucd v \<in> set [U ''sim'', U ''s'', U ''true'', U ''1'', U ''y'', U ''yes'',
                                U ''ativo'', U ''ativa'', U ''on'', U ''ok'']"

definition parse_positive_int :: "unicode \<Rightarrow> ustr option \<Rightarrow> int option" where
  "parse_positive_int ucd value =
     (case value of
        None \<Rightarrow> None
      | Some v \<Rightarrow>
          let s = filter (u_decimal ucd) v in
          if s = [] then None
          else
            case py_int ucd s of
              None \<Rightarrow> None
            | Some num \<Rightarrow> if num > 0 then Some num else None)"
section \<open>Sheet layout\<close>

definition HEADERS :: "ustr list" where
  "HEADERS =
     [U ''Senha'', U ''Nome'', U ''Telefone'', U ''Rede Social'', U ''E-mail'', U ''Bairro'',
      U ''Data e Hora de Registro'', U ''Data e Hora de Atendimento'']"

text \<open>The loop of \<open>_column_letter\<close>, entered with the index already incremented.\<close>

function column_letter_loop :: "int \<Rightarrow> ustr \<Rightarrow> ustr" where
  "column_letter_loop idx letters =
     (if idx > 0
      then column_letter_loop ((idx - 1) div 26) (letters @ [nat (65 + (idx - 1) mod 26)])
      else letters)"
  by pat_completeness auto
termination
  by (relation "measure (\<lambda>(idx, letters). nat idx)") auto

declare column_letter_loop.simps [simp del]

definition column_letter :: "int \<Rightarrow> ustr" where
  "column_letter idx = rev (column_letter_loop (idx + 1) [])"

definition header_range :: "ustr \<Rightarrow> ustr" where
  "header_range title =
     (let last_col = column_letter (int (length HEADERS) - 1)
      in title @ U ''!A1:'' @ last_col @ U ''1'')"

text \<open>
  The sheet of the areas, the environment variable \<open>NOMES_SHEET\<close> being unset, and the
  spreadsheet named in the code.
\<close>

definition NOMES_SHEET :: ustr where
  "NOMES_SHEET = U ''Nomes''"

definition HARDCODED_SPREADSHEET_ID :: ustr where
  "HARDCODED_SPREADSHEET_ID = U ''1eEvF5c8rTXwWKqgmyCMXU5OPJKqBk5XPt4Yry5B4x5c''"

section \<open>The spreadsheet service\<close>

text \<open>
  The requests the program sends to the Sheets API, each with the spreadsheet, then the
  range or the title, then the values it carries (every write is \<open>RAW\<close>, every append
  \<open>INSERT_ROWS\<close>). A response is the JSON object of the API, reduced to the three entries
  the program reads: the titles of the sheets (none when the entry is absent), the values
  and the updated range of an append (\<open>None\<close> when absent).

  The service is any function from the requests made so far and the request at hand to a
  response, or to \<open>None\<close> when the request raises \<open>HttpError\<close>. The state of the program is
  the list of the requests it has made, in order: what the store has received. A
  computation takes that list and returns the exception it raises or its result, with
  the list as it is then.
\<close>

datatype request =
    Spreadsheets_get ustr
  | Add_sheet ustr ustr
  | Values_update ustr ustr "ustr list list"
  | Values_get ustr ustr
  | Values_append ustr ustr "ustr list list"

record response =
  resp_sheets :: "ustr list"
  resp_values :: "ustr list list option"
  resp_updatedRange :: "ustr option"

type_synonym service = "request list \<Rightarrow> request \<Rightarrow> response option"

type_synonym 'a io = "request list \<Rightarrow> (error + 'a) \<times> request list"

definition io_return :: "'a \<Rightarrow> 'a io" where
  "io_return a log = (Inr a, log)"

definition io_raise :: "error \<Rightarrow> 'a io" where
  "io_raise e log = (Inl e, log)"

definition io_bind :: "'a io \<Rightarrow> ('a \<Rightarrow> 'b io) \<Rightarrow> 'b io" where
  "io_bind m f log =
     (case m log of (Inl e, log') \<Rightarrow> (Inl e, log') | (Inr a, log') \<Rightarrow> f a log')"

definition execute :: "service \<Rightarrow> request \<Rightarrow> response io" where
  "execute service req log =
     (case service log req of
        None \<Rightarrow> (Inl HttpError, log @ [req])
      | Some r \<Rightarrow> (Inr r, log @ [req]))"

section \<open>Area sheets\<close>

fun first_index :: "ustr list \<Rightarrow> ustr \<Rightarrow> nat \<Rightarrow> nat option" where
  "first_index [] want_n idx = None"
| "first_index (col # norm) want_n idx =
     (if col = want_n then Some idx else first_index norm want_n (Suc idx))"

fun find_col_loop :: "unicode \<Rightarrow> ustr list \<Rightarrow> ustr list \<Rightarrow> nat option" where
  "find_col_loop ucd norm [] = None"
| "find_col_loop ucd norm (want # candidates) =
     (case first_index norm (normalize_str ucd want) 0 of
        Some idx \<Rightarrow> Some idx
      | None \<Rightarrow> find_col_loop ucd norm candidates)"

definition find_col_indexes :: "unicode \<Rightarrow> ustr list \<Rightarrow> ustr list \<Rightarrow> nat option" where
  "find_col_indexes ucd header_row candidates =
     find_col_loop ucd (map (normalize_str ucd) header_row) candidates"

definition get_sheet_metadata :: "service \<Rightarrow> ustr \<Rightarrow> response io" where
  "get_sheet_metadata service spreadsheet_id = execute service (Spreadsheets_get spreadsheet_id)"

definition sheet_exists :: "response \<Rightarrow> ustr \<Rightarrow> bool" where
  "sheet_exists meta title \<longleftrightarrow> title \<in> set (resp_sheets meta)"

definition ensure_area_sheet :: "service \<Rightarrow> ustr \<Rightarrow> ustr \<Rightarrow> unit io" where
  "ensure_area_sheet service spreadsheet_id title =
     io_bind (get_sheet_metadata service spreadsheet_id) (\<lambda>meta.
       if \<not> sheet_exists meta title then
         io_bind (execute service (Add_sheet spreadsheet_id title)) (\<lambda>_.
         io_bind (execute service
                    (Values_update spreadsheet_id (header_range title) [HEADERS])) (\<lambda>_.
         io_return ()))
       else
         io_bind (execute service (Values_get spreadsheet_id (title @ U ''!1:1''))) (\<lambda>rng.
           let row1 = (case resp_values rng of None \<Rightarrow> [[]] | Some v \<Rightarrow> v) in
           if (case row1 of [] \<Rightarrow> True | r # _ \<Rightarrow> r = []) then
             io_bind (execute service
                        (Values_update spreadsheet_id (header_range title) [HEADERS])) (\<lambda>_.
             io_return ())
           else io_return ()))"

record area_info =
  info_area :: ustr
  info_sheet :: ustr
  info_ativa :: bool
  info_max_senhas :: "int option"

text \<open>The loop of \<open>read_active_areas\<close> over the rows under the header.\<close>

fun read_rows ::
  "unicode \<Rightarrow> nat \<Rightarrow> nat option \<Rightarrow> nat option \<Rightarrow> nat option \<Rightarrow> ustr list list \<Rightarrow> area_info list" where
  "read_rows ucd area_idx aba_idx ativa_idx max_idx [] = []"
| "read_rows ucd area_idx aba_idx ativa_idx max_idx (row # rows) =
     (let area = py_strip (if area_idx < length row then row ! area_idx else []) in
      if area = [] then read_rows ucd area_idx aba_idx ativa_idx max_idx rows
      else
        let sheet_title =
              (let t = py_strip (case aba_idx of
                                   Some i \<Rightarrow> if i < length row then row ! i else area
                                 | None \<Rightarrow> area)
               in if t = [] then area else t);
            ativa_val = (case ativa_idx of
                           Some i \<Rightarrow> if i < length row then row ! i else U ''Sim''
                         | None \<Rightarrow> U ''Sim'');
            max_val = (case max_idx of
                         Some i \<Rightarrow> if i < length row then Some (row ! i) else None
                       | None \<Rightarrow> None);
            ativa = truthy ucd ativa_val
        in if ativa
           then \<lparr>info_area = area, info_sheet = sheet_title, info_ativa = True,
                  info_max_senhas = parse_positive_int ucd max_val\<rparr>
                # read_rows ucd area_idx aba_idx ativa_idx max_idx rows
           else read_rows ucd area_idx aba_idx ativa_idx max_idx rows)"

definition area_candidates :: "ustr list" where
  "area_candidates =
     [193 # U ''rea'', U ''Area'', U ''Setor'', U ''Mesa'', 193 # U ''rea/Setor'']"

definition aba_candidates :: "ustr list" where
  "aba_candidates =
     [U ''Aba'', U ''Sheet'', U ''AbaDestino'', U ''Aba Destino'', U ''Destino'', U ''Guia'',
      U ''Tab'']"

definition ativa_candidates :: "ustr list" where
  "ativa_candidates =
     [U ''Ativa'', U ''Ativo'', U ''Status'', U ''Habilitada'', U ''Dispon'' @ 237 # U ''vel'']"

definition max_candidates :: "ustr list" where
  "max_candidates =
     [U ''Quantidade m'' @ 225 # U ''xima de senhas'', U ''Qtd m'' @ 225 # U ''xima'',
      U ''Qtd Senhas'', U ''Limite'']"

definition read_active_areas :: "unicode \<Rightarrow> service \<Rightarrow> ustr \<Rightarrow> area_info list io" where
  "read_active_areas ucd service spreadsheet_id log =
     (case execute service (Values_get spreadsheet_id (NOMES_SHEET @ U ''!A:Z'')) log of
        (Inl exc, log') \<Rightarrow>
          (case exc of
             HttpError \<Rightarrow> (Inl (RuntimeError Erro_ao_ler_aba), log')
           | _ \<Rightarrow> (Inl exc, log'))
      | (Inr result, log') \<Rightarrow>
          (let rows = (case resp_values result of None \<Rightarrow> [] | Some v \<Rightarrow> v) in
           case rows of
             [] \<Rightarrow> (Inr [], log')
           | header # data \<Rightarrow>
               (let area_idx = find_col_indexes ucd header area_candidates;
                    aba_idx = find_col_indexes ucd header aba_candidates;
                    ativa_idx = find_col_indexes ucd header ativa_candidates;
                    max_idx = find_col_indexes ucd header max_candidates
                in case area_idx of
                     None \<Rightarrow> (Inl (RuntimeError Coluna_area_nao_encontrada), log')
                   | Some area_idx \<Rightarrow>
                       (Inr (read_rows ucd area_idx aba_idx ativa_idx max_idx data), log'))))"

section \<open>Ticket number assignment\<close>

text \<open>
  The two searches of \<open>append_ticket_and_get_number\<close>, \<open>!.*?(\d+):\<close> and \<open>!.*?(\d+)$\<close>, as
  the backtracking matcher runs them. A search tries each \<open>!\<close> from the left; after it
  the lazy \<open>.*?\<close> tries each position in turn and stops at a line feed; at a position,
  \<open>(\d+)\<close> takes the longest run of digits there, and what follows the run must begin
  with \<open>:\<close>, or be the end of the text or its last line feed (a shorter run is followed
  by a digit, so giving digits back never helps). The result is group 1.
\<close>

definition digits_then :: "(ustr \<Rightarrow> bool) \<Rightarrow> ustr \<Rightarrow> ustr option" where
  "digits_then follow s =
     (let run = takeWhile isdigit s
      in if run \<noteq> [] \<and> follow (dropWhile isdigit s) then Some run else None)"

fun lazy_then_digits :: "(ustr \<Rightarrow> bool) \<Rightarrow> ustr \<Rightarrow> ustr option" where
  "lazy_then_digits follow [] = None"
| "lazy_then_digits follow (c # cs) =
     (case digits_then follow (c # cs) of
        Some g \<Rightarrow> Some g
      | None \<Rightarrow> if c = 10 then None else lazy_then_digits follow cs)"

fun re_search :: "(ustr \<Rightarrow> bool) \<Rightarrow> ustr \<Rightarrow> ustr option" where
  "re_search follow [] = None"
| "re_search follow (c # cs) =
     (if c = 33
      then (case lazy_then_digits follow cs of
              Some g \<Rightarrow> Some g
            | None \<Rightarrow> re_search follow cs)
      else re_search follow cs)"

definition colon_follows :: "ustr \<Rightarrow> bool" where
  "colon_follows s \<longleftrightarrow> take 1 s = U '':''"

definition end_follows :: "ustr \<Rightarrow> bool" where
  "end_follows s \<longleftrightarrow> s = [] \<or> s = [10]"

definition match_row :: "ustr \<Rightarrow> ustr option" where
  "match_row updated_range =
     (case re_search colon_follows updated_range of
        Some g \<Rightarrow> Some g
      | None \<Rightarrow> re_search end_follows updated_range)"

definition append_ticket_and_get_number ::
  "service \<Rightarrow> ustr \<Rightarrow> ustr \<Rightarrow> ustr list \<Rightarrow> int io" where
  "append_ticket_and_get_number service spreadsheet_id sheet_title row_values =
     io_bind (ensure_area_sheet service spreadsheet_id sheet_title) (\<lambda>_.
     io_bind (execute service
                (Values_append spreadsheet_id (sheet_title @ U ''!A1'') [row_values]))
       (\<lambda>append_result.
          let updated_range =
                (case resp_updatedRange append_result of None \<Rightarrow> [] | Some r \<Rightarrow> r)
          in case match_row updated_range of
               None \<Rightarrow> io_raise (RuntimeError (Linha_nao_detectada updated_range))
             | Some m \<Rightarrow>
                 (let row_idx_int = int_of_digits m;
                      senha_num = max 1 (row_idx_int - 1)
                  in io_bind (execute service
                                (Values_update spreadsheet_id
                                   (sheet_title @ U ''!A'' @ str_int row_idx_int)
                                   [[str_int senha_num]])) (\<lambda>_.
                     io_return senha_num))))"

section \<open>Ticket document\<close>

text \<open>
  A ticket, as \<open>_render_ticket_page\<close> receives it, is a dictionary from texts to texts,
  kept as the list of its entries. The document is the list of its pages, and a page is
  recorded by what is drawn on it: the logo when there is one, the title, the area, the
  ticket number in large print, the content of the Code128 bar code, the payload of the QR
  code, the four lines of the attendee, and the footer. The bytes of a document are
  modelled by the pages they hold.

  The libraries that draw are parameters of the model, collected in the record
  \<open>drawing\<close>: each tells, of what it is given, the exception it raises, if any. They
  are, in the order the program calls them: \<open>qrcode\<close> on the payload, \<open>Code128\<close> on the
  ticket number, \<open>fpdf\<close> on the page (the new page, the logo, the cells), and the output
  of \<open>fpdf\<close> on the whole document.
\<close>

type_synonym dict = "(ustr \<times> ustr) list"

definition dict_get :: "dict \<Rightarrow> ustr \<Rightarrow> ustr \<Rightarrow> ustr" where
  "dict_get data key dflt = (case map_of data key of None \<Rightarrow> dflt | Some v \<Rightarrow> v)"

record page =
  page_logo :: "nat list option"
  page_title :: ustr
  page_area :: ustr
  page_senha :: ustr
  page_barcode :: ustr
  page_qr :: ustr
  page_lines :: "ustr list"
  page_footer :: ustr

record drawing =
  draw_qrcode :: "ustr \<Rightarrow> error option"
  draw_code128 :: "ustr \<Rightarrow> error option"
  draw_fpdf :: "page \<Rightarrow> error option"
  draw_output :: "page list \<Rightarrow> error option"

definition init_ticket_pdf :: "page list" where
  "init_ticket_pdf = []"

text \<open>
  The output of \<open>fpdf\<close> closes the document first, and closing a document without pages
  adds an empty page to it.
\<close>

definition blank_page :: page where
  "blank_page =
     \<lparr>page_logo = None, page_title = [], page_area = [], page_senha = [], page_barcode = [],
      page_qr = [], page_lines = [], page_footer = []\<rparr>"

definition pdf_bytes :: "drawing \<Rightarrow> page list \<Rightarrow> error + page list" where
  "pdf_bytes drw pdf =
     (case draw_output drw pdf of
        Some exc \<Rightarrow> Inl exc
      | None \<Rightarrow> Inr (if pdf = [] then [blank_page] else pdf))"

definition render_ticket_page ::
  "unicode \<Rightarrow> drawing \<Rightarrow> nat list option \<Rightarrow> page list \<Rightarrow> dict \<Rightarrow> error + page list" where
  "render_ticket_page ucd drw logo_bytes pdf data =
     (let area = py_strip (dict_get data (U ''area'') (193 # U ''rea''));
          senha = py_strip (dict_get data (U ''senha'') (U ''0''));
          nome = format_name_upper ucd (dict_get data (U ''nome'') [])
      in case format_phone_number ucd (dict_get data (U ''telefone'') []) of
           Inl exc \<Rightarrow> Inl exc
         | Inr tel \<Rightarrow>
             (let bairro = py_strip (dict_get data (U ''bairro'') []);
                  ts = py_strip (dict_get data (U ''ts_registro'') []);
                  qr_payload = area @ U ''|'' @ senha @ U ''|'' @ nome
              in case draw_qrcode drw qr_payload of
                   Some exc \<Rightarrow> Inl exc
                 | None \<Rightarrow>
                     (case draw_code128 drw senha of
                        Some exc \<Rightarrow> Inl exc
                      | None \<Rightarrow>
                          (let drawn =
                                 \<lparr>page_logo = (case logo_bytes of
                                                  None \<Rightarrow> None
                                                | Some b \<Rightarrow> if b = [] then None else Some b),
                                  page_title = U ''Distribuidor de Senhas'',
                                  page_area = area,
                                  page_senha = senha,
                                  page_barcode = senha,
                                  page_qr = qr_payload,
                                  page_lines = [U ''Nome: '' @ nome, U ''Telefone: '' @ tel,
                                                U ''Bairro: '' @ bairro, U ''Registro: '' @ ts],
                                  page_footer =
                                    U ''Guarde este ticket at'' @ 233 # U '' o atendimento.''\<rparr>
                           in case draw_fpdf drw drawn of
                                Some exc \<Rightarrow> Inl exc
                              | None \<Rightarrow> Inr (pdf @ [drawn])))))"

definition generate_ticket_pdf ::
  "unicode \<Rightarrow> drawing \<Rightarrow> nat list option \<Rightarrow> dict \<Rightarrow> error + page list" where
  "generate_ticket_pdf ucd drw logo_bytes data =
     (case render_ticket_page ucd drw logo_bytes init_ticket_pdf data of
        Inl exc \<Rightarrow> Inl exc
      | Inr pdf \<Rightarrow> pdf_bytes drw pdf)"

text \<open>The loop of \<open>generate_tickets_pdf\<close>.\<close>

fun render_tickets ::
  "unicode \<Rightarrow> drawing \<Rightarrow> nat list option \<Rightarrow> page list \<Rightarrow> dict list \<Rightarrow> error + page list" where
  "render_tickets ucd drw logo_bytes pdf [] = Inr pdf"
| "render_tickets ucd drw logo_bytes pdf (ticket # tickets) =
     (case render_ticket_page ucd drw logo_bytes pdf ticket of
        Inl exc \<Rightarrow> Inl exc
      | Inr pdf' \<Rightarrow> render_tickets ucd drw logo_bytes pdf' tickets)"

definition generate_tickets_pdf ::
  "unicode \<Rightarrow> drawing \<Rightarrow> nat list option \<Rightarrow> dict list \<Rightarrow> error + page list" where
  "generate_tickets_pdf ucd drw logo_bytes tickets =
     (case render_tickets ucd drw logo_bytes init_ticket_pdf tickets of
        Inl exc \<Rightarrow> Inl exc
      | Inr pdf \<Rightarrow> pdf_bytes drw pdf)"

section \<open>Submission\<close>

text \<open>
  What \<open>submit_tickets\<close> takes from its surroundings: the outcome of \<open>_sheets_service()\<close>
  (the service, or the exception of the credentials), the text \<open>now_str()\<close> returns once
  the requests so far have been made, the cached bytes of the logo, the spreadsheet of
  the secrets or of the environment variable (empty when unset), and the libraries that
  draw.
\<close>

record env =
  env_sheets_service :: "error + service"
  env_now_str :: "request list \<Rightarrow> ustr"
  env_logo_bytes :: "nat list option"
  env_spreadsheet_id :: ustr
  env_drawing :: drawing

definition get_spreadsheet_id :: "env \<Rightarrow> error + ustr" where
  "get_spreadsheet_id e =
     (let sid = py_strip HARDCODED_SPREADSHEET_ID in
      if sid \<noteq> [] then Inr sid
      else
        let sid = env_spreadsheet_id e in
        if sid = [] then Inl (RuntimeError Spreadsheet_id_nao_configurado) else Inr sid)"

record excedida =
  exc_area :: ustr
  exc_limite :: int
  exc_senha :: int

text \<open>
  The loop of \<open>submit_tickets\<close> over the requested areas. The source appends each
  \<open>registro\<close> to \<open>resultados\<close> and to \<open>tickets_payload\<close>; the two lists are the same, and
  the model keeps one.
\<close>

fun submit_loop ::
  "env \<Rightarrow> service \<Rightarrow> ustr \<Rightarrow> (ustr \<rightharpoonup> ustr) \<Rightarrow> (ustr \<rightharpoonup> int option) \<Rightarrow>
   ustr \<Rightarrow> ustr \<Rightarrow> ustr \<Rightarrow> ustr \<Rightarrow> ustr \<Rightarrow>
   ustr list \<Rightarrow> dict list \<Rightarrow> excedida list \<Rightarrow> (dict list \<times> excedida list) io" where
  "submit_loop e service spreadsheet_id map_area_sheet map_area_limit
     nome_fmt telefone_fmt rede_social_fmt email_fmt bairro_fmt [] resultados excedidas log =
     (Inr (resultados, excedidas), log)"
| "submit_loop e service spreadsheet_id map_area_sheet map_area_limit
     nome_fmt telefone_fmt rede_social_fmt email_fmt bairro_fmt (area # areas)
     resultados excedidas log =
     (let sheet_title = (case map_area_sheet area of
                           None \<Rightarrow> area
                         | Some s \<Rightarrow> if s = [] then area else s);
          ts = env_now_str e log;
          row = [[], nome_fmt, telefone_fmt, rede_social_fmt, email_fmt, bairro_fmt, ts, []]
      in case append_ticket_and_get_number service spreadsheet_id sheet_title row log of
           (Inl exc, log') \<Rightarrow> (Inl exc, log')
         | (Inr senha_num, log') \<Rightarrow>
             (let registro =
                    [(U ''area'', area), (U ''sheet'', sheet_title),
                     (U ''senha'', str_int senha_num), (U ''nome'', nome_fmt),
                     (U ''telefone'', telefone_fmt), (U ''bairro'', bairro_fmt),
                     (U ''rede_social'', rede_social_fmt), (U ''email'', email_fmt),
                     (U ''ts_registro'', ts)];
                  limite = (case map_area_limit area of None \<Rightarrow> None | Some l \<Rightarrow> l)
              in submit_loop e service spreadsheet_id map_area_sheet map_area_limit
                   nome_fmt telefone_fmt rede_social_fmt email_fmt bairro_fmt areas
                   (resultados @ [registro])
                   (case limite of
                      None \<Rightarrow> excedidas
                    | Some l \<Rightarrow>
                        if senha_num > l
                        then excedidas @
                               [\<lparr>exc_area = area, exc_limite = l, exc_senha = senha_num\<rparr>]
                        else excedidas)
                   log'))"

definition submit_tickets ::
  "unicode \<Rightarrow> env \<Rightarrow> ustr list \<Rightarrow> ustr \<Rightarrow> ustr \<Rightarrow> ustr \<Rightarrow> ustr \<Rightarrow> ustr \<Rightarrow>
   (dict list \<times> page list option \<times> excedida list) io" where
  "submit_tickets ucd e areas nome telefone bairro rede_social email =
     (if areas = [] then io_raise (ValueError Selecione_area)
      else
        case env_sheets_service e of
          Inl exc \<Rightarrow> io_raise exc
        | Inr service \<Rightarrow>
            (case get_spreadsheet_id e of
               Inl exc \<Rightarrow> io_raise exc
             | Inr spreadsheet_id \<Rightarrow>
                 io_bind (read_active_areas ucd service spreadsheet_id) (\<lambda>areas_info.
                   let map_area_sheet =
                         map_of (rev (map (\<lambda>a. (info_area a, info_sheet a)) areas_info));
                       map_area_limit =
                         map_of (rev (map (\<lambda>a. (info_area a, info_max_senhas a)) areas_info));
                       nome_fmt = format_name_upper ucd nome
                   in if nome_fmt = [] then io_raise (ValueError Nome_obrigatorio)
                      else
                        case format_phone_number ucd telefone of
                          Inl exc \<Rightarrow> io_raise exc
                        | Inr telefone_fmt \<Rightarrow>
                            (let bairro_fmt = py_strip bairro;
                                 rede_social_fmt = py_strip rede_social;
                                 email_fmt = py_strip email
                             in io_bind
                                  (submit_loop e service spreadsheet_id map_area_sheet
                                     map_area_limit nome_fmt telefone_fmt rede_social_fmt
                                     email_fmt bairro_fmt areas [] [])
                                  (\<lambda>(resultados, excedidas).
                                     if excedidas = [] then
                                       (case generate_tickets_pdf ucd (env_drawing e) (env_logo_bytes e)
                                               resultados of
                                          Inl exc \<Rightarrow> io_raise exc
                                        | Inr pdf \<Rightarrow>
                                            io_return (resultados, Some pdf, excedidas))
                                     else io_return (resultados, None, excedidas))))))"

section \<open>Example tables\<close>

text \<open>
  Tables to run the program on: those of the character database for the code points
  below U+0100 and for the Arabic-Indic digits U+0660..U+0669, with every other code
  point taken as a symbol that has no case, no decomposition and is no digit; \<open>int\<close>
  converts 4300 digits. The libraries that draw accept everything but an empty bar code
  and, the fonts of the document being those of Latin-1, a page with a code point from
  U+0100 on in one of its texts.
\<close>

definition upper_char :: "nat \<Rightarrow> nat list" where
  "upper_char c =
     (if 97 \<le> c \<and> c \<le> 122 then [c - 32]
      else if c = 181 then [924]
      else if c = 223 then [83, 83]
      else if 224 \<le> c \<and> c \<le> 254 \<and> c \<noteq> 247 then [c - 32]
      else if c = 255 then [376]
      else [c])"

definition lower_char :: "nat \<Rightarrow> nat" where
  "lower_char c =
     (if (65 \<le> c \<and> c \<le> 90) \<or> (192 \<le> c \<and> c \<le> 222 \<and> c \<noteq> 215) then c + 32 else c)"

definition py_lower :: "ustr \<Rightarrow> ustr" where
  "py_lower s = map lower_char s"

text \<open>The compatibility decompositions (NFKD) of the code points below U+0100.\<close>

definition nfkd_table :: "(nat \<times> nat list) list" where
  "nfkd_table =
    [(160, [32]), (168, [32, 776]), (170, [97]), (175, [32, 772]), (178, [50]), (179, [51]),
     (180, [32, 769]), (181, [956]), (184, [32, 807]), (185, [49]), (186, [111]),
     (188, [49, 8260, 52]), (189, [49, 8260, 50]), (190, [51, 8260, 52]),
     (192, [65, 768]), (193, [65, 769]), (194, [65, 770]), (195, [65, 771]), (196, [65, 776]),
     (197, [65, 778]), (199, [67, 807]), (200, [69, 768]), (201, [69, 769]), (202, [69, 770]),
     (203, [69, 776]), (204, [73, 768]), (205, [73, 769]), (206, [73, 770]), (207, [73, 776]),
     (209, [78, 771]), (210, [79, 768]), (211, [79, 769]), (212, [79, 770]), (213, [79, 771]),
     (214, [79, 776]), (217, [85, 768]), (218, [85, 769]), (219, [85, 770]), (220, [85, 776]),
     (221, [89, 769]), (224, [97, 768]), (225, [97, 769]), (226, [97, 770]), (227, [97, 771]),
     (228, [97, 776]), (229, [97, 778]), (231, [99, 807]), (232, [101, 768]), (233, [101, 769]),
     (234, [101, 770]), (235, [101, 776]), (236, [105, 768]), (237, [105, 769]),
     (238, [105, 770]), (239, [105, 776]), (241, [110, 771]), (242, [111, 768]),
     (243, [111, 769]), (244, [111, 770]), (245, [111, 771]), (246, [111, 776]),
     (249, [117, 768]), (250, [117, 769]), (251, [117, 770]), (252, [117, 776]),
     (253, [121, 769]), (255, [121, 776])]"

text \<open>No code point below U+00A0 has a decomposition.\<close>

definition nfkd_char :: "nat \<Rightarrow> nat list" where
  "nfkd_char c =
     (if c < 160 then [c] else case map_of nfkd_table c of None \<Rightarrow> [c] | Some d \<Rightarrow> d)"

definition nfkd :: "ustr \<Rightarrow> ustr" where
  "nfkd s = concat (map nfkd_char s)"

text \<open>The combining diacritical marks U+0300..U+036F; U+034F has combining class 0.\<close>

definition combining :: "nat \<Rightarrow> bool" where
  "combining c \<longleftrightarrow> 768 \<le> c \<and> c \<le> 879 \<and> c \<noteq> 847"

definition example_decimal :: "nat \<Rightarrow> bool" where
  "example_decimal c \<longleftrightarrow> isdigit c \<or> (1632 \<le> c \<and> c \<le> 1641)"

definition example_unicode :: unicode where
  "example_unicode =
     \<lparr>u_decimal = example_decimal,
      u_digit_value = (\<lambda>c. if isdigit c then c - 48 else c - 1632),
      u_max_str_digits = 4300,
      u_upper = upper_char,
      u_lower = py_lower,
      u_nfkd = nfkd,
      u_combining = combining\<rparr>"

definition page_texts :: "page \<Rightarrow> ustr list" where
  "page_texts drawn =
     page_title drawn # page_area drawn # page_senha drawn # page_footer drawn # page_lines drawn"

definition example_drawing :: drawing where
  "example_drawing =
     \<lparr>draw_qrcode = (\<lambda>payload. None),
      draw_code128 = (\<lambda>code. if code = [] then Some (LibraryError (U ''Code128'')) else None),
      draw_fpdf = (\<lambda>drawn. if list_all (list_all (\<lambda>c. c < 256)) (page_texts drawn) then None
                           else Some (LibraryError (U ''FPDF''))),
      draw_output = (\<lambda>pdf. None)\<rparr>"

section \<open>Example stores\<close>

text \<open>
  Two services to run the program on. The first answers every request with an object
  that has none of the three entries. The second holds the sheets of the given titles,
  each with its header row, and the given table of areas; it places an appended row
  under the rows the sheet held at first (by title, one header row and no other where
  none is given) and under the rows appended before, and reports the range it wrote.
\<close>

definition empty_response :: response where
  "empty_response = \<lparr>resp_sheets = [], resp_values = None, resp_updatedRange = None\<rparr>"

definition mute_service :: service where
  "mute_service log req = Some empty_response"

definition example_service :: "ustr list \<Rightarrow> ustr list list \<Rightarrow> (ustr \<times> nat) list \<Rightarrow> service" where
  "example_service titles config held log req =
     (case req of
        Spreadsheets_get sid \<Rightarrow> Some (empty_response\<lparr>resp_sheets := titles\<rparr>)
      | Add_sheet sid title \<Rightarrow> Some empty_response
      | Values_update sid rng vals \<Rightarrow> Some empty_response
      | Values_get sid rng \<Rightarrow>
          Some (empty_response\<lparr>resp_values :=
                  Some (if rng = NOMES_SHEET @ U ''!A:Z'' then config else [HEADERS])\<rparr>)
      | Values_append sid rng vals \<Rightarrow>
          (let title = takeWhile (\<lambda>c. c \<noteq> 33) rng;
               earlier = length (filter (\<lambda>r. case r of
                                             Values_append _ rng' _ \<Rightarrow> rng' = rng
                                           | _ \<Rightarrow> False) log);
               n = (case map_of held title of None \<Rightarrow> 1 | Some k \<Rightarrow> k) + earlier + 1
           in Some (empty_response\<lparr>resp_updatedRange :=
                      Some (title @ U ''!A'' @ str_nat n @ U '':H'' @ str_nat n)\<rparr>)))"

definition example_env :: "service \<Rightarrow> env" where
  "example_env service =
     \<lparr>env_sheets_service = Inr service,
      env_now_str = (\<lambda>log. U ''03/11/2026 10:00:0'' @ str_nat (length log mod 10)),
      env_logo_bytes = None,
      env_spreadsheet_id = [],
      env_drawing = example_drawing\<rparr>"

text \<open>A third service answers every request with the given updated range and nothing else.\<close>

definition ack_service :: "ustr \<Rightarrow> service" where
  "ack_service rng log req = Some (empty_response\<lparr>resp_updatedRange := Some rng\<rparr>)"

text \<open>
  A fourth service answers like the third, but the connection fails at every update of
  cells other than the header row.
\<close>

definition failing_update_service :: "ustr \<Rightarrow> service" where
  "failing_update_service rng log req =
     (case req of
        Values_update sid r vals \<Rightarrow>
          if vals = [HEADERS] then Some (empty_response\<lparr>resp_updatedRange := Some rng\<rparr>)
          else None
      | _ \<Rightarrow> Some (empty_response\<lparr>resp_updatedRange := Some rng\<rparr>))"
subsection \<open>What the claims say about the normalizers\<close>

text \<open>
  The digit content of a telephone text, after the country code 55 is dropped when it is
  there and more than 11 digits are left.
\<close>

definition phone_digits :: "unicode \<Rightarrow> ustr \<Rightarrow> ustr" where
  "phone_digits ucd t =
     (let d = filter (u_decimal ucd) t
      in if take 2 d = U ''55'' \<and> length d > 11 then drop 2 d else d)"

text \<open>
  The shape \<open>(NN) NNNNN-NNNN\<close>: the area code is the fixed \<open>92\<close>, the other nine are
  decimal digits.
\<close>

definition phone_shape :: "unicode \<Rightarrow> ustr \<Rightarrow> bool" where
  "phone_shape ucd s \<longleftrightarrow>
     length s = 15 \<and> take 5 s = U ''(92) '' \<and> list_all (u_decimal ucd) (take 5 (drop 5 s)) \<and>
     take 1 (drop 10 s) = U ''-'' \<and> list_all (u_decimal ucd) (drop 11 s)"

definition no_outer_space :: "ustr \<Rightarrow> bool" where
  "no_outer_space s \<longleftrightarrow> s = [] \<or> (\<not> isspace (hd s) \<and> \<not> isspace (last s))"


subsection \<open>What the claims say about the store\<close>

text \<open>
  The row position an append acknowledgement exposes, if any: the number the program
  reads in the updated range.
\<close>

definition acknowledged_row :: "response \<Rightarrow> int option" where
  "acknowledged_row ack =
     map_option int_of_digits
       (match_row (case resp_updatedRange ack of None \<Rightarrow> [] | Some r \<Rightarrow> r))"

text \<open>The requests that change the store, and the rows a list of requests appends.\<close>

fun is_mutation :: "request \<Rightarrow> bool" where
  "is_mutation (Spreadsheets_get _) = False"
| "is_mutation (Values_get _ _) = False"
| "is_mutation (Add_sheet _ _) = True"
| "is_mutation (Values_update _ _ _) = True"
| "is_mutation (Values_append _ _ _) = True"

fun appended_rows :: "request list \<Rightarrow> (ustr \<times> ustr list list) list" where
  "appended_rows [] = []"
| "appended_rows (Values_append _ rng rows # reqs) = (rng, rows) # appended_rows reqs"
| "appended_rows (_ # reqs) = appended_rows reqs"

fun cell_writes :: "request list \<Rightarrow> (ustr \<times> ustr list list) list" where
  "cell_writes [] = []"
| "cell_writes (Values_update _ rng rows # reqs) = (rng, rows) # cell_writes reqs"
| "cell_writes (_ # reqs) = cell_writes reqs"

subsection \<open>What the claims say about the areas\<close>

text \<open>
  Of a row of the table of areas: the name of the area; whether the row is active (it is
  when the table has no such column, or the row no such cell); the sheet of the area (its
  own name when the table has no such column, or the row no such cell, or a blank one);
  the quota; and the area as the resolver lists it.
\<close>

definition row_area :: "nat \<Rightarrow> ustr list \<Rightarrow> ustr" where
  "row_area area_idx row = py_strip (if area_idx < length row then row ! area_idx else [])"

definition row_active :: "unicode \<Rightarrow> nat option \<Rightarrow> ustr list \<Rightarrow> bool" where
  "row_active ucd ativa_idx row =
     (case ativa_idx of
        None \<Rightarrow> True
      | Some i \<Rightarrow> if i < length row then truthy ucd (row ! i) else True)"

definition row_sheet :: "nat option \<Rightarrow> ustr list \<Rightarrow> ustr \<Rightarrow> ustr" where
  "row_sheet aba_idx row area =
     (case aba_idx of
        None \<Rightarrow> area
      | Some i \<Rightarrow>
          if i < length row \<and> py_strip (row ! i) \<noteq> [] then py_strip (row ! i) else area)"

definition row_max :: "unicode \<Rightarrow> nat option \<Rightarrow> ustr list \<Rightarrow> int option" where
  "row_max ucd max_idx row =
     (case max_idx of
        None \<Rightarrow> None
      | Some i \<Rightarrow> if i < length row then parse_positive_int ucd (Some (row ! i)) else None)"

definition row_info ::
  "unicode \<Rightarrow> nat \<Rightarrow> nat option \<Rightarrow> nat option \<Rightarrow> ustr list \<Rightarrow> area_info" where
  "row_info ucd area_idx aba_idx max_idx row =
     \<lparr>info_area = row_area area_idx row,
      info_sheet = row_sheet aba_idx row (row_area area_idx row),
      info_ativa = True,
      info_max_senhas = row_max ucd max_idx row\<rparr>"

subsection \<open>What the claims say about the document\<close>

text \<open>
  The page of a ticket whose telephone is formatted to \<open>tel\<close>, every field that is
  missing being the empty text (the area and the number have their own fallback);
  whether the libraries draw a page without raising; the formatted telephone of a
  ticket, and the pages of a batch of tickets.
\<close>

definition ticket_page :: "unicode \<Rightarrow> nat list option \<Rightarrow> dict \<Rightarrow> ustr \<Rightarrow> page" where
  "ticket_page ucd logo_bytes data tel =
     \<lparr>page_logo = (case logo_bytes of None \<Rightarrow> None | Some b \<Rightarrow> if b = [] then None else Some b),
      page_title = U ''Distribuidor de Senhas'',
      page_area = py_strip (dict_get data (U ''area'') (193 # U ''rea'')),
      page_senha = py_strip (dict_get data (U ''senha'') (U ''0'')),
      page_barcode = py_strip (dict_get data (U ''senha'') (U ''0'')),
      page_qr = py_strip (dict_get data (U ''area'') (193 # U ''rea'')) @ U ''|'' @
                py_strip (dict_get data (U ''senha'') (U ''0'')) @ U ''|'' @
                format_name_upper ucd (dict_get data (U ''nome'') []),
      page_lines = [U ''Nome: '' @ format_name_upper ucd (dict_get data (U ''nome'') []),
                    U ''Telefone: '' @ tel,
                    U ''Bairro: '' @ py_strip (dict_get data (U ''bairro'') []),
                    U ''Registro: '' @ py_strip (dict_get data (U ''ts_registro'') [])],
      page_footer = U ''Guarde este ticket at'' @ 233 # U '' o atendimento.''\<rparr>"

definition draws :: "drawing \<Rightarrow> page \<Rightarrow> bool" where
  "draws drw drawn \<longleftrightarrow>
     draw_qrcode drw (page_qr drawn) = None \<and> draw_code128 drw (page_barcode drawn) = None \<and>
     draw_fpdf drw drawn = None"

definition ticket_phone :: "unicode \<Rightarrow> dict \<Rightarrow> ustr" where
  "ticket_phone ucd data =
     (case format_phone_number ucd (dict_get data (U ''telefone'') []) of
        Inl exc \<Rightarrow> []
      | Inr tel \<Rightarrow> tel)"

definition ticket_pages :: "unicode \<Rightarrow> nat list option \<Rightarrow> dict list \<Rightarrow> page list" where
  "ticket_pages ucd logo_bytes tickets =
     map (\<lambda>data. ticket_page ucd logo_bytes data (ticket_phone ucd data)) tickets"

definition drawable :: "unicode \<Rightarrow> drawing \<Rightarrow> nat list option \<Rightarrow> dict \<Rightarrow> bool" where
  "drawable ucd drw logo_bytes data \<longleftrightarrow>
     (\<exists>tel. format_phone_number ucd (dict_get data (U ''telefone'') []) = Inr tel) \<and>
     draws drw (ticket_page ucd logo_bytes data (ticket_phone ucd data))"


subsection \<open>What the claims say about a submission\<close>

text \<open>
  The sheet of an area and its configured maximum, as the submission resolves them from
  the areas it has read (the last row of an area counts); the quota entries an issued
  number gives rise to; the registration of an area with its number and time stamp, and
  the row that is appended for it.
\<close>

definition sheet_of :: "(ustr \<rightharpoonup> ustr) \<Rightarrow> ustr \<Rightarrow> ustr" where
  "sheet_of map_area_sheet area =
     (case map_area_sheet area of None \<Rightarrow> area | Some s \<Rightarrow> if s = [] then area else s)"

definition exceeded_by :: "(ustr \<rightharpoonup> int option) \<Rightarrow> ustr \<Rightarrow> int \<Rightarrow> excedida list" where
  "exceeded_by map_area_limit area senha_num =
     (case (case map_area_limit area of None \<Rightarrow> None | Some l \<Rightarrow> l) of
        None \<Rightarrow> []
      | Some l \<Rightarrow>
          if senha_num > l
          then [\<lparr>exc_area = area, exc_limite = l, exc_senha = senha_num\<rparr>]
          else [])"

definition configured_sheets :: "area_info list \<Rightarrow> (ustr \<rightharpoonup> ustr)" where
  "configured_sheets infos = map_of (rev (map (\<lambda>a. (info_area a, info_sheet a)) infos))"

definition configured_max :: "area_info list \<Rightarrow> (ustr \<rightharpoonup> int option)" where
  "configured_max infos = map_of (rev (map (\<lambda>a. (info_area a, info_max_senhas a)) infos))"

definition sheet_row :: "ustr \<Rightarrow> ustr \<Rightarrow> ustr \<Rightarrow> ustr \<Rightarrow> ustr \<Rightarrow> ustr \<Rightarrow> ustr list" where
  "sheet_row nome_fmt telefone_fmt rede_social_fmt email_fmt bairro_fmt ts =
     [[], nome_fmt, telefone_fmt, rede_social_fmt, email_fmt, bairro_fmt, ts, []]"

definition registro ::
  "ustr \<Rightarrow> ustr \<Rightarrow> ustr \<Rightarrow> ustr \<Rightarrow> ustr \<Rightarrow> ustr \<Rightarrow> ustr \<Rightarrow> int \<Rightarrow> ustr \<Rightarrow> dict" where
  "registro nome_fmt telefone_fmt rede_social_fmt email_fmt bairro_fmt area sheet_title
     senha_num ts =
     [(U ''area'', area), (U ''sheet'', sheet_title), (U ''senha'', str_int senha_num),
      (U ''nome'', nome_fmt), (U ''telefone'', telefone_fmt), (U ''bairro'', bairro_fmt),
      (U ''rede_social'', rede_social_fmt), (U ''email'', email_fmt), (U ''ts_registro'', ts)]"

text \<open>
  A store that answers every request, and one whose acknowledgement of an append always
  exposes a row position.
\<close>

definition answers_all :: "service \<Rightarrow> bool" where
  "answers_all service \<longleftrightarrow> (\<forall>log req. service log req \<noteq> None)"

definition acknowledges_rows :: "service \<Rightarrow> bool" where
  "acknowledges_rows service \<longleftrightarrow>
     (\<forall>log sid rng rows ack.
        service log (Values_append sid rng rows) = Some ack \<longrightarrow> acknowledged_row ack \<noteq> None)"
section \<open>Properties of the normalizers\<close>

lemma U_simps [simp]: "U [] = []" "U (c # cs) = of_char c # U cs"
  by (simp_all add: U_def)

text \<open>The definitions that evaluate a text function on a given text.\<close>

lemmas text_eval =
  isspace_def isdigit_def py_strip_def py_upper_def upper_char_def py_lower_def lower_char_def
  nfkd_def nfkd_char_def nfkd_table_def combining_def normalize_str_def example_unicode_def
  example_decimal_def

lemma example_space_not_decimal: "\<forall>c. isspace c \<longrightarrow> \<not> u_decimal example_unicode c"
  by (auto simp: isspace_def example_unicode_def example_decimal_def isdigit_def)

lemma filter_decimal_strip:
  assumes sp: "\<forall>c. isspace c \<longrightarrow> \<not> P c"
  shows "filter P (py_strip s) = filter P s"
proof -
  have dw: "\<And>xs. filter P (dropWhile isspace xs) = filter P xs"
  proof -
    fix xs show "filter P (dropWhile isspace xs) = filter P xs"
      by (induction xs) (auto simp: sp)
  qed
  have "filter P (py_strip s) = rev (filter P (dropWhile isspace (rev (dropWhile isspace s))))"
    by (simp add: py_strip_def rev_filter)
  also have "\<dots> = rev (filter P (rev (dropWhile isspace s)))"
    by (simp only: dw)
  also have "\<dots> = filter P (dropWhile isspace s)"
    by (simp add: rev_filter)
  also have "\<dots> = filter P s"
    by (rule dw)
  finally show ?thesis .
qed

lemma phone_digits_source:
  assumes "\<forall>c. isspace c \<longrightarrow> \<not> u_decimal ucd c"
  shows "(let digits = filter (u_decimal ucd) (py_strip t) in
            if startswith digits (U ''55'') \<and> length digits > 11 then drop 2 digits else digits)
         = phone_digits ucd t"
proof -
  have "\<And>d. startswith d (U ''55'') \<longleftrightarrow> take 2 d = U ''55''"
    by (simp add: startswith_def numeral_2_eq_2)
  then show ?thesis
    by (simp add: phone_digits_def filter_decimal_strip [OF assms] Let_def)
qed

lemma phone_digits_all_digits: "list_all (u_decimal ucd) (phone_digits ucd t)"
proof -
  have "set (phone_digits ucd t) \<subseteq> set (filter (u_decimal ucd) t)"
    by (auto simp: phone_digits_def Let_def dest: in_set_dropD)
  then show ?thesis by (auto simp: list_all_iff)
qed

lemma phone_digits_Nil: "filter (u_decimal ucd) t = [] \<Longrightarrow> phone_digits ucd t = []"
  by (simp add: phone_digits_def)

lemma format_phone_number_ok:
  assumes sp: "\<forall>c. isspace c \<longrightarrow> \<not> u_decimal ucd c"
    and "length (phone_digits ucd t) = 11"
  shows "format_phone_number ucd t =
           Inr (U ''(92) '' @ take 5 (drop 2 (phone_digits ucd t)) @ U ''-'' @
                drop 7 (phone_digits ucd t))"
proof -
  from assms(2) have d: "filter (u_decimal ucd) t \<noteq> []"
    using phone_digits_Nil [of ucd t] by auto
  then have d': "filter (u_decimal ucd) (py_strip t) \<noteq> []"
    by (simp add: filter_decimal_strip [OF sp])
  then have s: "py_strip t \<noteq> []"
    by auto
  show ?thesis
    using assms(2) s d' phone_digits_source [OF sp, of t]
    by (simp add: format_phone_number_def Let_def)
qed

lemma format_phone_number_bad:
  assumes sp: "\<forall>c. isspace c \<longrightarrow> \<not> u_decimal ucd c"
    and "length (phone_digits ucd t) \<noteq> 11"
  shows "\<exists>m. format_phone_number ucd t = Inl (ValueError m)"
  using assms(2) phone_digits_source [OF sp, of t]
  by (simp add: format_phone_number_def Let_def)

lemma phone_shape_build:
  assumes "length d = 11" "list_all P d" "P = u_decimal ucd"
  shows "phone_shape ucd (U ''(92) '' @ take 5 (drop 2 d) @ U ''-'' @ drop 7 d)"
proof -
  have a: "list_all (u_decimal ucd) (take 5 (drop 2 d))" "list_all (u_decimal ucd) (drop 7 d)"
    using assms(2,3) by (auto simp: list_all_iff dest: in_set_takeD in_set_dropD)
  show ?thesis
    using assms(1) a by (simp add: phone_shape_def)
qed

text \<open>
  C4. No white space being a decimal digit: whenever the digit content of the input,
  after the country code is dropped, has exactly 11 digits, \<open>format_phone_number\<close> returns
  the text \<open>(92) NNNNN-NNNN\<close> made of the fixed area code and the last 9 digits; whenever
  it has not (the empty input included), it fails with a validation error.
\<close>

theorem format_phone_number_spec:
  assumes "\<And>c. isspace c \<Longrightarrow> \<not> u_decimal ucd c"
  shows "(length (phone_digits ucd t) = 11 \<longrightarrow>
            format_phone_number ucd t =
              Inr (U ''(92) '' @ take 5 (drop 2 (phone_digits ucd t)) @ U ''-'' @
                   drop 7 (phone_digits ucd t)) \<and>
            (\<exists>r. format_phone_number ucd t = Inr r \<and> phone_shape ucd r)) \<and>
         (length (phone_digits ucd t) \<noteq> 11 \<longrightarrow>
            (\<exists>m. format_phone_number ucd t = Inl (ValueError m)))"
proof (intro conjI impI)
  from assms have sp: "\<forall>c. isspace c \<longrightarrow> \<not> u_decimal ucd c"
    by blast
  assume l: "length (phone_digits ucd t) = 11"
  show ok: "format_phone_number ucd t =
              Inr (U ''(92) '' @ take 5 (drop 2 (phone_digits ucd t)) @ U ''-'' @
                   drop 7 (phone_digits ucd t))"
    by (rule format_phone_number_ok [OF sp l])
  show "\<exists>r. format_phone_number ucd t = Inr r \<and> phone_shape ucd r"
    using ok phone_shape_build [OF l phone_digits_all_digits refl] by blast
next
  from assms have sp: "\<forall>c. isspace c \<longrightarrow> \<not> u_decimal ucd c"
    by blast
  assume l: "length (phone_digits ucd t) \<noteq> 11"
  show "\<exists>m. format_phone_number ucd t = Inl (ValueError m)"
    by (rule format_phone_number_bad [OF sp l])
qed

theorem format_phone_number_spec_witness:
  "length (phone_digits example_unicode (U ''+55 (92) 98123-1234'')) = 11 \<and>
   format_phone_number example_unicode (U ''+55 (92) 98123-1234'') =
     Inr (U ''(92) 98123-1234'') \<and>
   length (phone_digits example_unicode (U ''9298123123'' @ [1636])) = 11 \<and>
   format_phone_number example_unicode (U ''9298123123'' @ [1636]) =
     Inr (U ''(92) 98123-123'' @ [1636]) \<and>
   length (phone_digits example_unicode (U ''9812-1234'')) \<noteq> 11 \<and>
   (\<exists>m. format_phone_number example_unicode (U ''9812-1234'') = Inl (ValueError m)) \<and>
   length (phone_digits example_unicode []) \<noteq> 11 \<and>
   (\<exists>m. format_phone_number example_unicode [] = Inl (ValueError m))"
proof -
  have sp: "\<And>c. isspace c \<Longrightarrow> \<not> u_decimal example_unicode c"
    using example_space_not_decimal by blast
  have t: "\<And>t. (length (phone_digits example_unicode t) = 11 \<longrightarrow>
               format_phone_number example_unicode t =
                 Inr (U ''(92) '' @ take 5 (drop 2 (phone_digits example_unicode t)) @ U ''-'' @
                      drop 7 (phone_digits example_unicode t)) \<and>
               (\<exists>r. format_phone_number example_unicode t = Inr r \<and>
                    phone_shape example_unicode r)) \<and>
            (length (phone_digits example_unicode t) \<noteq> 11 \<longrightarrow>
               (\<exists>m. format_phone_number example_unicode t = Inl (ValueError m)))"
    by (rule format_phone_number_spec) (rule sp)
  show ?thesis
    using t [of "U ''+55 (92) 98123-1234''"] t [of "U ''9298123123'' @ [1636]"]
      t [of "U ''9812-1234''"] t [of "[]"]
    by (simp add: phone_digits_def example_unicode_def example_decimal_def isdigit_def)
qed

subsection \<open>The name\<close>

lemma upper_char_not_Nil: "u_upper example_unicode c \<noteq> []"
  by (simp add: example_unicode_def upper_char_def)

lemma upper_char_not_space:
  "\<not> isspace c \<Longrightarrow> d \<in> set (u_upper example_unicode c) \<Longrightarrow> \<not> isspace d"
  by (auto simp: example_unicode_def upper_char_def isspace_def split: if_splits)

lemma upper_char_fixed:
  "d \<in> set (u_upper example_unicode c) \<Longrightarrow> u_upper example_unicode d = [d]"
  by (auto simp: example_unicode_def upper_char_def split: if_splits)

lemma py_upper_append: "py_upper ucd (a @ b) = py_upper ucd a @ py_upper ucd b"
  by (simp add: py_upper_def)

lemma py_upper_fixed: "(\<And>d. d \<in> set xs \<Longrightarrow> u_upper ucd d = [d]) \<Longrightarrow> py_upper ucd xs = xs"
  by (induction xs) (simp_all add: py_upper_def)

lemma py_upper_idem:
  assumes fixed: "\<forall>c d. d \<in> set (u_upper ucd c) \<longrightarrow> u_upper ucd d = [d]"
  shows "py_upper ucd (py_upper ucd s) = py_upper ucd s"
proof (induction s)
  case Nil
  show ?case by (simp add: py_upper_def)
next
  case (Cons c s)
  have "py_upper ucd (u_upper ucd c) = u_upper ucd c"
    by (rule py_upper_fixed) (simp add: fixed)
  moreover have "py_upper ucd (c # s) = u_upper ucd c @ py_upper ucd s"
    by (simp add: py_upper_def)
  ultimately show ?case
    using Cons.IH by (simp add: py_upper_append)
qed

lemma py_strip_no_outer_space: "no_outer_space (py_strip s)"
proof (cases "py_strip s = []")
  case True
  then show ?thesis by (simp add: no_outer_space_def)
next
  case False
  define t where "t = dropWhile isspace s"
  define u where "u = dropWhile isspace (rev t)"
  have ps: "py_strip s = rev u"
    by (simp add: py_strip_def t_def u_def)
  with False have u: "u \<noteq> []" by simp
  then have hu: "\<not> isspace (hd u)"
    unfolding u_def by (rule hd_dropWhile)
  from u have t: "t \<noteq> []"
    by (auto simp: u_def)
  then have ht: "\<not> isspace (hd t)"
    unfolding t_def by (rule hd_dropWhile)
  have "rev t = takeWhile isspace (rev t) @ u"
    by (simp add: u_def)
  then have "last (rev t) = last u"
    using u by (metis last_appendR)
  then have lu: "last u = hd t"
    using t by (simp add: last_rev)
  have "hd (rev u) = last u" "last (rev u) = hd u"
    using u by (simp_all add: hd_rev last_rev)
  then show ?thesis
    using False hu ht lu ps by (simp add: no_outer_space_def)
qed

lemma py_strip_fixed: "no_outer_space s \<Longrightarrow> py_strip s = s"
proof (cases s)
  case Nil
  then show ?thesis by (simp add: py_strip_def)
next
  case (Cons c cs)
  assume "no_outer_space s"
  with Cons have h: "\<not> isspace (hd s)" and l: "\<not> isspace (last s)" and ne: "s \<noteq> []"
    by (simp_all add: no_outer_space_def)
  from h ne have a: "dropWhile isspace s = s"
    by (cases s) simp_all
  from l ne have "\<not> isspace (hd (rev s))"
    by (simp add: hd_rev)
  with ne have b: "dropWhile isspace (rev s) = rev s"
    by (cases "rev s") simp_all
  show ?thesis
    by (simp add: py_strip_def a b)
qed

lemma py_strip_idem: "py_strip (py_strip s) = py_strip s"
  by (rule py_strip_fixed) (rule py_strip_no_outer_space)

lemma py_upper_no_outer_space:
  assumes nN: "\<forall>c. u_upper ucd c \<noteq> []"
    and nS: "\<forall>c d. \<not> isspace c \<longrightarrow> d \<in> set (u_upper ucd c) \<longrightarrow> \<not> isspace d"
    and "no_outer_space s"
  shows "no_outer_space (py_upper ucd s)"
proof (cases "s = []")
  case True
  then show ?thesis by (simp add: py_upper_def no_outer_space_def)
next
  case False
  from nN have not_Nil: "\<And>c. u_upper ucd c \<noteq> []"
    by blast
  from nS have not_space: "\<And>c d. \<not> isspace c \<Longrightarrow> d \<in> set (u_upper ucd c) \<Longrightarrow> \<not> isspace d"
    by blast
  from False assms(3) have h: "\<not> isspace (hd s)" and l: "\<not> isspace (last s)"
    by (simp_all add: no_outer_space_def)
  from False obtain c cs where s: "s = c # cs" by (cases s) auto
  then have "py_upper ucd s = u_upper ucd c @ py_upper ucd cs"
    by (simp add: py_upper_def)
  then have "hd (py_upper ucd s) = hd (u_upper ucd c)"
    using not_Nil [of c] by simp
  moreover have "hd (u_upper ucd c) \<in> set (u_upper ucd c)"
    using not_Nil [of c] by simp
  ultimately have H: "\<not> isspace (hd (py_upper ucd s))"
    using h s not_space [of c] by simp
  from False have "s = butlast s @ [last s]" by simp
  then have "py_upper ucd s = py_upper ucd (butlast s) @ py_upper ucd [last s]"
    by (metis py_upper_append)
  then have "py_upper ucd s = py_upper ucd (butlast s) @ u_upper ucd (last s)"
    by (simp add: py_upper_def)
  then have "last (py_upper ucd s) = last (u_upper ucd (last s))"
    using not_Nil [of "last s"] by simp
  moreover have "last (u_upper ucd (last s)) \<in> set (u_upper ucd (last s))"
    using not_Nil [of "last s"] by simp
  ultimately have L: "\<not> isspace (last (py_upper ucd s))"
    using l not_space [of "last s"] by simp
  have "py_upper ucd s \<noteq> []"
    using s not_Nil [of c] by (simp add: py_upper_def)
  then show ?thesis
    using H L by (simp add: no_outer_space_def)
qed

lemma format_name_upper_no_outer_space:
  assumes "\<forall>c. u_upper ucd c \<noteq> []"
    and "\<forall>c d. \<not> isspace c \<longrightarrow> d \<in> set (u_upper ucd c) \<longrightarrow> \<not> isspace d"
  shows "no_outer_space (format_name_upper ucd x)"
  unfolding format_name_upper_def
  by (rule py_upper_no_outer_space [OF assms]) (rule py_strip_no_outer_space)

lemma format_name_upper_idem:
  assumes "\<forall>c. u_upper ucd c \<noteq> []"
    and "\<forall>c d. \<not> isspace c \<longrightarrow> d \<in> set (u_upper ucd c) \<longrightarrow> \<not> isspace d"
    and fixed: "\<forall>c d. d \<in> set (u_upper ucd c) \<longrightarrow> u_upper ucd d = [d]"
  shows "format_name_upper ucd (format_name_upper ucd x) = format_name_upper ucd x"
proof -
  have "py_strip (format_name_upper ucd x) = format_name_upper ucd x"
    by (rule py_strip_fixed) (rule format_name_upper_no_outer_space [OF assms(1,2)])
  then have "format_name_upper ucd (format_name_upper ucd x) =
               py_upper ucd (format_name_upper ucd x)"
    by (simp add: format_name_upper_def)
  also have "\<dots> = format_name_upper ucd x"
    by (simp add: format_name_upper_def py_upper_idem [OF fixed])
  finally show ?thesis .
qed

text \<open>
  C9. \<open>str.upper\<close> maps every code point to a non-empty text of code points that it leaves
  as they are, and maps no code point other than white space to white space. Then
  \<open>format_name_upper\<close> is idempotent; its result is upper case (upper-casing it again
  changes nothing) and has no white space at either end.
\<close>

theorem format_name_upper_spec:
  assumes "\<And>c. u_upper ucd c \<noteq> []"
    and "\<And>c d. \<not> isspace c \<Longrightarrow> d \<in> set (u_upper ucd c) \<Longrightarrow> \<not> isspace d"
    and "\<And>c d. d \<in> set (u_upper ucd c) \<Longrightarrow> u_upper ucd d = [d]"
  shows "format_name_upper ucd (format_name_upper ucd x) = format_name_upper ucd x \<and>
         py_upper ucd (format_name_upper ucd x) = format_name_upper ucd x \<and>
         no_outer_space (format_name_upper ucd x)"
proof -
  from assms(1) have a: "\<forall>c. u_upper ucd c \<noteq> []"
    by blast
  from assms(2) have b: "\<forall>c d. \<not> isspace c \<longrightarrow> d \<in> set (u_upper ucd c) \<longrightarrow> \<not> isspace d"
    by blast
  from assms(3) have c: "\<forall>c d. d \<in> set (u_upper ucd c) \<longrightarrow> u_upper ucd d = [d]"
    by blast
  have "py_upper ucd (format_name_upper ucd x) = format_name_upper ucd x"
    by (simp add: format_name_upper_def py_upper_idem [OF c])
  then show ?thesis
    using format_name_upper_idem [OF a b c] format_name_upper_no_outer_space [OF a b] by simp
qed

theorem format_name_upper_spec_witness:
  "format_name_upper example_unicode (U ''  jo'' @ 227 # U ''o da Silva '') =
     U ''JO'' @ 195 # U ''O DA SILVA'' \<and>
   format_name_upper example_unicode (U ''JO'' @ 195 # U ''O DA SILVA'') =
     U ''JO'' @ 195 # U ''O DA SILVA'' \<and>
   py_upper example_unicode (U ''JO'' @ 195 # U ''O DA SILVA'') = U ''JO'' @ 195 # U ''O DA SILVA'' \<and>
   no_outer_space (U ''JO'' @ 195 # U ''O DA SILVA'') \<and>
   format_name_upper example_unicode (U ''stra'' @ [223] @ U ''e'') = U ''STRASSE''"
proof -
  have v: "format_name_upper example_unicode (U ''  jo'' @ 227 # U ''o da Silva '') =
             U ''JO'' @ 195 # U ''O DA SILVA''"
    by (simp add: format_name_upper_def text_eval)
  have w: "format_name_upper example_unicode (U ''stra'' @ [223] @ U ''e'') = U ''STRASSE''"
    by (simp add: format_name_upper_def text_eval)
  have "format_name_upper example_unicode
           (format_name_upper example_unicode (U ''  jo'' @ 227 # U ''o da Silva '')) =
         format_name_upper example_unicode (U ''  jo'' @ 227 # U ''o da Silva '') \<and>
        py_upper example_unicode
           (format_name_upper example_unicode (U ''  jo'' @ 227 # U ''o da Silva '')) =
         format_name_upper example_unicode (U ''  jo'' @ 227 # U ''o da Silva '') \<and>
        no_outer_space (format_name_upper example_unicode (U ''  jo'' @ 227 # U ''o da Silva ''))"
    by (rule format_name_upper_spec) (fact upper_char_not_Nil upper_char_not_space upper_char_fixed)+
  then show ?thesis
    using w unfolding v by (simp add: v)
qed

section \<open>Properties of the ticket number assignment\<close>

lemma appended_rows_append: "appended_rows (a @ b) = appended_rows a @ appended_rows b"
  by (induction a rule: appended_rows.induct) simp_all

lemma cell_writes_append: "cell_writes (a @ b) = cell_writes a @ cell_writes b"
  by (induction a rule: cell_writes.induct) simp_all

lemma ensure_area_sheet_requests:
  assumes "ensure_area_sheet service sid title log = (res, log1)"
  shows "\<exists>new. log1 = log @ new \<and> appended_rows new = [] \<and>
           set (cell_writes new) \<subseteq> {(header_range title, [HEADERS])}"
  using assms
  by (auto simp: ensure_area_sheet_def get_sheet_metadata_def io_bind_def execute_def
      io_return_def Let_def split: option.splits if_splits list.splits)

lemma append_ticket_unfold:
  assumes "ensure_area_sheet service sid title log = (Inr (), log1)"
    and "service log1 (Values_append sid (title @ U ''!A1'') [row_values]) = Some ack"
  shows "append_ticket_and_get_number service sid title row_values log =
     (let rng = (case resp_updatedRange ack of None \<Rightarrow> [] | Some r \<Rightarrow> r);
          log2 = log1 @ [Values_append sid (title @ U ''!A1'') [row_values]]
      in case match_row rng of
           None \<Rightarrow> (Inl (RuntimeError (Linha_nao_detectada rng)), log2)
         | Some m \<Rightarrow>
             (let r = int_of_digits m;
                  upd = Values_update sid (title @ U ''!A'' @ str_int r)
                          [[str_int (max 1 (r - 1))]]
              in case service log2 upd of
                   None \<Rightarrow> (Inl HttpError, log2 @ [upd])
                 | Some _ \<Rightarrow> (Inr (max 1 (r - 1)), log2 @ [upd])))"
  using assms
  by (simp add: append_ticket_and_get_number_def io_bind_def execute_def io_raise_def
      io_return_def Let_def split: option.splits)

lemma append_ticket_ensure_fails:
  assumes "ensure_area_sheet service sid title log = (Inl exc, log1)"
  shows "append_ticket_and_get_number service sid title row_values log = (Inl exc, log1)"
  using assms by (simp add: append_ticket_and_get_number_def io_bind_def)

lemma append_ticket_append_fails:
  assumes "ensure_area_sheet service sid title log = (Inr (), log1)"
    and "service log1 (Values_append sid (title @ U ''!A1'') [row_values]) = None"
  shows "append_ticket_and_get_number service sid title row_values log =
           (Inl HttpError, log1 @ [Values_append sid (title @ U ''!A1'') [row_values]])"
  using assms
  by (simp add: append_ticket_and_get_number_def io_bind_def execute_def)

text \<open>
  C1, as the code has it. When the acknowledgement of the append exposes the row position
  \<open>r\<close> and the update of the cell is answered, \<open>append_ticket_and_get_number\<close> returns
  \<open>r - 1\<close> if \<open>r\<close> is at least 2 and 1 otherwise, and after the append it writes that
  number, as text, to the cell \<open>A\<close> of row \<open>r\<close> of the sheet.
\<close>

theorem append_ticket_number_of_row:
  assumes "ensure_area_sheet service sid title log = (Inr (), log1)"
    and "service log1 (Values_append sid (title @ U ''!A1'') [row_values]) = Some ack"
    and "acknowledged_row ack = Some r"
    and "service (log1 @ [Values_append sid (title @ U ''!A1'') [row_values]])
           (Values_update sid (title @ U ''!A'' @ str_int r)
              [[str_int (if 2 \<le> r then r - 1 else 1)]]) = Some answer"
  shows "append_ticket_and_get_number service sid title row_values log =
           (Inr (if 2 \<le> r then r - 1 else 1),
            log1 @ [Values_append sid (title @ U ''!A1'') [row_values],
                    Values_update sid (title @ U ''!A'' @ str_int r)
                      [[str_int (if 2 \<le> r then r - 1 else 1)]]])"
proof -
  have m: "\<And>x::int. max 1 (x - 1) = (if 2 \<le> x then x - 1 else 1)"
    by auto
  from assms(3) obtain g where g: "match_row (case resp_updatedRange ack of None \<Rightarrow> [] | Some r \<Rightarrow> r) = Some g"
    and r: "r = int_of_digits g"
    by (auto simp: acknowledged_row_def)
  show ?thesis
    using assms(4) g
    unfolding append_ticket_unfold [OF assms(1,2)] r
    by (simp add: Let_def m del: U_simps)
qed

theorem append_ticket_number_of_row_witness:
  "ensure_area_sheet (ack_service (U ''A!A7:H7'')) (U ''id'') (U ''A'') [] =
     (Inr (), [Spreadsheets_get (U ''id''), Add_sheet (U ''id'') (U ''A''),
               Values_update (U ''id'') (U ''A!A1:H1'') [HEADERS]]) \<and>
   acknowledged_row (empty_response\<lparr>resp_updatedRange := Some (U ''A!A7:H7'')\<rparr>) = Some 7 \<and>
   append_ticket_and_get_number (ack_service (U ''A!A7:H7'')) (U ''id'') (U ''A'')
       [[], U ''ANA''] [] =
     (Inr 6, [Spreadsheets_get (U ''id''), Add_sheet (U ''id'') (U ''A''),
              Values_update (U ''id'') (U ''A!A1:H1'') [HEADERS],
              Values_append (U ''id'') (U ''A!A1'') [[[], U ''ANA'']],
              Values_update (U ''id'') (U ''A!A7'') [[U ''6'']]])"
proof -
  let ?s = "ack_service (U ''A!A7:H7'')"
  let ?ack = "empty_response\<lparr>resp_updatedRange := Some (U ''A!A7:H7'')\<rparr>"
  let ?log1 = "[Spreadsheets_get (U ''id''), Add_sheet (U ''id'') (U ''A''),
               Values_update (U ''id'') (U ''A!A1:H1'') [HEADERS]]"
  have e: "ensure_area_sheet ?s (U ''id'') (U ''A'') [] = (Inr (), ?log1)"
    by code_simp
  have a: "?s ?log1 (Values_append (U ''id'') (U ''A'' @ U ''!A1'') [[[], U ''ANA'']]) = Some ?ack"
    by (simp add: ack_service_def)
  have r: "acknowledged_row ?ack = Some 7"
    by code_simp
  have u: "?s (?log1 @ [Values_append (U ''id'') (U ''A'' @ U ''!A1'') [[[], U ''ANA'']]])
             (Values_update (U ''id'') (U ''A'' @ U ''!A'' @ str_int 7)
                [[str_int (if 2 \<le> (7::int) then 7 - 1 else 1)]]) = Some ?ack"
    by (simp add: ack_service_def)
  have s: "str_int 7 = U ''7''" "str_int 6 = U ''6''"
    by code_simp+
  show ?thesis
    using append_ticket_number_of_row [OF e a r u] e r s by simp
qed

theorem append_ticket_row_minus_one_counterexample:
  "acknowledged_row (empty_response\<lparr>resp_updatedRange := Some (U ''A!A1:H1'')\<rparr>) = Some 1 \<and>
   fst (append_ticket_and_get_number (ack_service (U ''A!A1:H1'')) (U ''id'') (U ''A'')
          [[], U ''ANA''] []) = Inr 1 \<and>
   fst (append_ticket_and_get_number (ack_service (U ''A!A1:H1'')) (U ''id'') (U ''A'')
          [[], U ''ANA''] []) \<noteq> Inr (1 - 1)"
  by code_simp

text \<open>
  C10. When the acknowledgement of the append exposes a row position \<open>r\<close>, whatever it is,
  \<open>append_ticket_and_get_number\<close> asks for the update of the cell \<open>A\<close> of row \<open>r\<close>. If
  that update is answered, the function returns a number, which is the larger of 1 and
  \<open>r - 1\<close>: it is at least 1, and it is 1 for the row positions 0 and 1 (and below). The
  function returns no number only if that update is not answered, and then it raises
  the \<open>HttpError\<close> of the update; in both cases the append and the update are the two
  requests it makes after the sheet is ensured.
\<close>

theorem ticket_number_at_least_one:
  assumes "ensure_area_sheet service sid title log = (Inr (), log1)"
    and "service log1 (Values_append sid (title @ U ''!A1'') [row_values]) = Some ack"
    and "acknowledged_row ack = Some r"
  shows "(\<forall>answer.
            service (log1 @ [Values_append sid (title @ U ''!A1'') [row_values]])
              (Values_update sid (title @ U ''!A'' @ str_int r) [[str_int (max 1 (r - 1))]]) =
              Some answer \<longrightarrow>
            (\<exists>n. append_ticket_and_get_number service sid title row_values log =
                   (Inr n,
                    log1 @ [Values_append sid (title @ U ''!A1'') [row_values],
                            Values_update sid (title @ U ''!A'' @ str_int r) [[str_int n]]]) \<and>
                 1 \<le> n \<and> n = max 1 (r - 1) \<and> (r \<le> 1 \<longrightarrow> n = 1))) \<and>
         (service (log1 @ [Values_append sid (title @ U ''!A1'') [row_values]])
            (Values_update sid (title @ U ''!A'' @ str_int r) [[str_int (max 1 (r - 1))]]) =
            None \<longrightarrow>
          append_ticket_and_get_number service sid title row_values log =
            (Inl HttpError,
             log1 @ [Values_append sid (title @ U ''!A1'') [row_values],
                     Values_update sid (title @ U ''!A'' @ str_int r)
                       [[str_int (max 1 (r - 1))]]]))"
proof -
  from assms(3) obtain g where g: "match_row (case resp_updatedRange ack of None \<Rightarrow> [] | Some r \<Rightarrow> r) = Some g"
    and r: "r = int_of_digits g"
    by (auto simp: acknowledged_row_def)
  show ?thesis
    using g
    unfolding append_ticket_unfold [OF assms(1,2)] r
    by (simp add: Let_def del: U_simps)
qed

theorem ticket_number_at_least_one_witness:
  "acknowledged_row (empty_response\<lparr>resp_updatedRange := Some (U ''A!A0:H0'')\<rparr>) = Some 0 \<and>
   append_ticket_and_get_number (ack_service (U ''A!A0:H0'')) (U ''id'') (U ''A'')
       [[], U ''ANA''] [] =
     (Inr 1, [Spreadsheets_get (U ''id''), Add_sheet (U ''id'') (U ''A''),
              Values_update (U ''id'') (U ''A!A1:H1'') [HEADERS],
              Values_append (U ''id'') (U ''A!A1'') [[[], U ''ANA'']],
              Values_update (U ''id'') (U ''A!A0'') [[U ''1'']]]) \<and>
   acknowledged_row (empty_response\<lparr>resp_updatedRange := Some (U ''A!A1:H1'')\<rparr>) = Some 1 \<and>
   append_ticket_and_get_number (ack_service (U ''A!A1:H1'')) (U ''id'') (U ''A'')
       [[], U ''ANA''] [] =
     (Inr 1, [Spreadsheets_get (U ''id''), Add_sheet (U ''id'') (U ''A''),
              Values_update (U ''id'') (U ''A!A1:H1'') [HEADERS],
              Values_append (U ''id'') (U ''A!A1'') [[[], U ''ANA'']],
              Values_update (U ''id'') (U ''A!A1'') [[U ''1'']]]) \<and>
   append_ticket_and_get_number (failing_update_service (U ''A!A1:H1'')) (U ''id'') (U ''A'')
       [[], U ''ANA''] [] =
     (Inl HttpError,
             [Spreadsheets_get (U ''id''), Add_sheet (U ''id'') (U ''A''),
              Values_update (U ''id'') (U ''A!A1:H1'') [HEADERS],
              Values_append (U ''id'') (U ''A!A1'') [[[], U ''ANA'']],
              Values_update (U ''id'') (U ''A!A1'') [[U ''1'']]])"
proof -
  let ?log1 = "[Spreadsheets_get (U ''id''), Add_sheet (U ''id'') (U ''A''),
               Values_update (U ''id'') (U ''A!A1:H1'') [HEADERS]]"
  let ?ack0 = "empty_response\<lparr>resp_updatedRange := Some (U ''A!A0:H0'')\<rparr>"
  let ?ack1 = "empty_response\<lparr>resp_updatedRange := Some (U ''A!A1:H1'')\<rparr>"
  have e0: "ensure_area_sheet (ack_service (U ''A!A0:H0'')) (U ''id'') (U ''A'') [] = (Inr (), ?log1)"
    by code_simp
  have e1: "ensure_area_sheet (ack_service (U ''A!A1:H1'')) (U ''id'') (U ''A'') [] = (Inr (), ?log1)"
    by code_simp
  have e2: "ensure_area_sheet (failing_update_service (U ''A!A1:H1'')) (U ''id'') (U ''A'') [] =
              (Inr (), ?log1)"
    by code_simp
  have a0: "ack_service (U ''A!A0:H0'') ?log1 (Values_append (U ''id'') (U ''A'' @ U ''!A1'') [[[], U ''ANA'']])
              = Some ?ack0"
    by (simp add: ack_service_def)
  have a1: "ack_service (U ''A!A1:H1'') ?log1 (Values_append (U ''id'') (U ''A'' @ U ''!A1'') [[[], U ''ANA'']])
              = Some ?ack1"
    by (simp add: ack_service_def)
  have a2: "failing_update_service (U ''A!A1:H1'') ?log1
              (Values_append (U ''id'') (U ''A'' @ U ''!A1'') [[[], U ''ANA'']]) = Some ?ack1"
    by (simp add: failing_update_service_def)
  have r0: "acknowledged_row ?ack0 = Some 0"
    by code_simp
  have r1: "acknowledged_row ?ack1 = Some 1"
    by code_simp
  have s: "str_int 0 = U ''0''" "str_int 1 = U ''1''"
    by code_simp+
  have u0: "ack_service (U ''A!A0:H0'')
              (?log1 @ [Values_append (U ''id'') (U ''A'' @ U ''!A1'') [[[], U ''ANA'']]])
              (Values_update (U ''id'') (U ''A'' @ U ''!A'' @ str_int 0)
                 [[str_int (max 1 (0 - 1))]]) = Some ?ack0"
    by (simp add: ack_service_def)
  have u1: "ack_service (U ''A!A1:H1'')
              (?log1 @ [Values_append (U ''id'') (U ''A'' @ U ''!A1'') [[[], U ''ANA'']]])
              (Values_update (U ''id'') (U ''A'' @ U ''!A'' @ str_int 1)
                 [[str_int (max 1 (1 - 1))]]) = Some ?ack1"
    by (simp add: ack_service_def)
  have u2: "failing_update_service (U ''A!A1:H1'')
              (?log1 @ [Values_append (U ''id'') (U ''A'' @ U ''!A1'') [[[], U ''ANA'']]])
              (Values_update (U ''id'') (U ''A'' @ U ''!A'' @ str_int 1)
                 [[str_int (max 1 (1 - 1))]]) = None"
    by (simp add: failing_update_service_def HEADERS_def s)
  show ?thesis
    using u0 u1 u2 ticket_number_at_least_one [OF e0 a0 r0]
      ticket_number_at_least_one [OF e1 a1 r1] ticket_number_at_least_one [OF e2 a2 r1] r0 r1
    by (simp add: s)
qed

text \<open>
  C6. When the acknowledgement of the append exposes no row position,
  \<open>append_ticket_and_get_number\<close> raises the \<open>RuntimeError\<close> of the undetected row; the append
  is the last request it makes, and the only one that appends; and the only cells it has
  written are those of the header row, when the sheet had none.
\<close>

theorem unparseable_acknowledgement_fails:
  assumes "ensure_area_sheet service sid title log = (Inr (), log1)"
    and "service log1 (Values_append sid (title @ U ''!A1'') [row_values]) = Some ack"
    and "acknowledged_row ack = None"
  shows "(\<exists>rng. fst (append_ticket_and_get_number service sid title row_values log) =
                  Inl (RuntimeError (Linha_nao_detectada rng))) \<and>
         snd (append_ticket_and_get_number service sid title row_values log) =
           log1 @ [Values_append sid (title @ U ''!A1'') [row_values]] \<and>
         (\<exists>new. snd (append_ticket_and_get_number service sid title row_values log) = log @ new \<and>
                 appended_rows new = [(title @ U ''!A1'', [row_values])] \<and>
                 set (cell_writes new) \<subseteq> {(header_range title, [HEADERS])})"
proof -
  from assms(3) have g: "match_row (case resp_updatedRange ack of None \<Rightarrow> [] | Some r \<Rightarrow> r) = None"
    by (simp add: acknowledged_row_def)
  have run: "append_ticket_and_get_number service sid title row_values log =
               (Inl (RuntimeError (Linha_nao_detectada
                      (case resp_updatedRange ack of None \<Rightarrow> [] | Some r \<Rightarrow> r))),
                log1 @ [Values_append sid (title @ U ''!A1'') [row_values]])"
    unfolding append_ticket_unfold [OF assms(1,2)] using g by (simp add: Let_def)
  from ensure_area_sheet_requests [OF assms(1)] obtain new where
    new: "log1 = log @ new" "appended_rows new = []"
      "set (cell_writes new) \<subseteq> {(header_range title, [HEADERS])}"
    by blast
  have "snd (append_ticket_and_get_number service sid title row_values log) =
          log @ (new @ [Values_append sid (title @ U ''!A1'') [row_values]])"
    by (simp add: run new(1))
  moreover have "appended_rows (new @ [Values_append sid (title @ U ''!A1'') [row_values]]) =
                   [(title @ U ''!A1'', [row_values])]"
    by (simp add: appended_rows_append new(2))
  moreover have "set (cell_writes (new @ [Values_append sid (title @ U ''!A1'') [row_values]])) \<subseteq>
                   {(header_range title, [HEADERS])}"
    using new(3) by (simp add: cell_writes_append)
  ultimately show ?thesis
    unfolding run by (intro conjI exI) simp_all
qed

theorem unparseable_acknowledgement_fails_witness:
  "ensure_area_sheet mute_service (U ''id'') (U ''A'') [] =
     (Inr (), [Spreadsheets_get (U ''id''), Add_sheet (U ''id'') (U ''A''),
               Values_update (U ''id'') (U ''A!A1:H1'') [HEADERS]]) \<and>
   acknowledged_row empty_response = None \<and>
   append_ticket_and_get_number mute_service (U ''id'') (U ''A'') [[], U ''ANA''] [] =
     (Inl (RuntimeError (Linha_nao_detectada [])),
      [Spreadsheets_get (U ''id''), Add_sheet (U ''id'') (U ''A''),
       Values_update (U ''id'') (U ''A!A1:H1'') [HEADERS],
       Values_append (U ''id'') (U ''A!A1'') [[[], U ''ANA'']]])"
proof -
  let ?log1 = "[Spreadsheets_get (U ''id''), Add_sheet (U ''id'') (U ''A''),
               Values_update (U ''id'') (U ''A!A1:H1'') [HEADERS]]"
  have e: "ensure_area_sheet mute_service (U ''id'') (U ''A'') [] = (Inr (), ?log1)"
    by code_simp
  have a: "mute_service ?log1 (Values_append (U ''id'') (U ''A'' @ U ''!A1'') [[[], U ''ANA'']]) =
             Some empty_response"
    by (simp add: mute_service_def)
  have r: "acknowledged_row empty_response = None"
    by code_simp
  have v: "fst (append_ticket_and_get_number mute_service (U ''id'') (U ''A'') [[], U ''ANA''] []) =
             Inl (RuntimeError (Linha_nao_detectada []))"
    by code_simp
  show ?thesis
    using unparseable_acknowledgement_fails [OF e a r] e r v
    by (simp add: prod_eq_iff)
qed

text \<open>
  C2, as the code has it. \<open>append_ticket_and_get_number\<close> first appends the row as it is
  given, and only then reads the row position in the acknowledgement of that append: a
  ticket number is written to the store only after the append, and only the number
  derived from the acknowledged row position. When the acknowledgement exposes no row
  position, or a request fails, nothing follows the append.
\<close>

theorem number_follows_append:
  assumes "ensure_area_sheet service sid title log = (Inr (), log1)"
  shows "\<exists>rest. snd (append_ticket_and_get_number service sid title row_values log) =
                  log1 @ Values_append sid (title @ U ''!A1'') [row_values] # rest \<and>
                (rest = [] \<or>
                 (\<exists>ack r. service log1 (Values_append sid (title @ U ''!A1'') [row_values]) =
                            Some ack \<and>
                          acknowledged_row ack = Some r \<and>
                          rest = [Values_update sid (title @ U ''!A'' @ str_int r)
                                    [[str_int (max 1 (r - 1))]]]))"
proof (cases "service log1 (Values_append sid (title @ U ''!A1'') [row_values])")
  case None
  show ?thesis
    unfolding append_ticket_append_fails [OF assms None] by simp
next
  case (Some ack)
  show ?thesis
  proof (cases "match_row (case resp_updatedRange ack of None \<Rightarrow> [] | Some r \<Rightarrow> r)")
    case None
    then show ?thesis
      unfolding append_ticket_unfold [OF assms Some] by (simp add: Let_def)
  next
    case (Some g)
    then have "acknowledged_row ack = Some (int_of_digits g)"
      by (simp add: acknowledged_row_def)
    then show ?thesis
      using Some \<open>service log1 (Values_append sid (title @ U ''!A1'') [row_values]) = Some ack\<close>
      unfolding append_ticket_unfold [OF assms \<open>service log1 (Values_append sid (title @ U ''!A1'') [row_values]) = Some ack\<close>]
      by (simp add: Let_def split: option.split)
  qed
qed

theorem number_follows_append_witness:
  "ensure_area_sheet (example_service [U ''A''] [] [(U ''A'', 3)]) (U ''id'') (U ''A'') [] =
     (Inr (), [Spreadsheets_get (U ''id''), Values_get (U ''id'') (U ''A!1:1'')]) \<and>
   snd (append_ticket_and_get_number (example_service [U ''A''] [] [(U ''A'', 3)]) (U ''id'')
          (U ''A'') [[], U ''ANA''] []) =
     [Spreadsheets_get (U ''id''), Values_get (U ''id'') (U ''A!1:1''),
      Values_append (U ''id'') (U ''A!A1'') [[[], U ''ANA'']],
      Values_update (U ''id'') (U ''A!A4'') [[U ''3'']]]"
proof -
  let ?s = "example_service [U ''A''] [] [(U ''A'', 3)]"
  have e: "ensure_area_sheet ?s (U ''id'') (U ''A'') [] =
             (Inr (), [Spreadsheets_get (U ''id''), Values_get (U ''id'') (U ''A!1:1'')])"
    by code_simp
  have v: "snd (append_ticket_and_get_number ?s (U ''id'') (U ''A'') [[], U ''ANA''] []) =
     [Spreadsheets_get (U ''id''), Values_get (U ''id'') (U ''A!1:1''),
      Values_append (U ''id'') (U ''A!A1'') [[[], U ''ANA'']],
      Values_update (U ''id'') (U ''A!A4'') [[U ''3'']]]"
    by code_simp
  show ?thesis
    using number_follows_append [OF e, of "[[], U ''ANA'']"] e v by simp
qed

theorem row_stored_before_number_counterexample:
  "fst (append_ticket_and_get_number mute_service (U ''id'') (U ''A'') [[], U ''ANA''] []) =
     Inl (RuntimeError (Linha_nao_detectada [])) \<and>
   appended_rows
     (snd (append_ticket_and_get_number mute_service (U ''id'') (U ''A'') [[], U ''ANA''] [])) =
     [(U ''A!A1'', [[[], U ''ANA'']])] \<and>
   cell_writes
     (snd (append_ticket_and_get_number mute_service (U ''id'') (U ''A'') [[], U ''ANA''] [])) =
     [(U ''A!A1:H1'', [HEADERS])]"
  by code_simp

section \<open>Properties of the area resolver\<close>

lemmas candidates_eval =
  find_col_indexes_def area_candidates_def aba_candidates_def ativa_candidates_def
  max_candidates_def

lemma truthy_Sim: "truthy example_unicode (U ''Sim'')"
  by (simp add: truthy_def text_eval)

lemma sheet_title_row_sheet:
  assumes "area = py_strip x" "area \<noteq> []"
  shows "(let t = py_strip (case aba_idx of
                              Some i \<Rightarrow> if i < length row then row ! i else area
                            | None \<Rightarrow> area)
          in if t = [] then area else t) = row_sheet aba_idx row area"
  using assms by (auto simp: row_sheet_def Let_def py_strip_idem split: option.splits)

lemma read_rows_listed:
  assumes sim: "truthy ucd (U ''Sim'')"
  shows "read_rows ucd area_idx aba_idx ativa_idx max_idx data =
     map (row_info ucd area_idx aba_idx max_idx)
       (filter (\<lambda>row. row_area area_idx row \<noteq> [] \<and> row_active ucd ativa_idx row) data)"
proof (induction data)
  case Nil
  show ?case by simp
next
  case (Cons row data)
  show ?case
  proof (cases "row_area area_idx row = []")
    case True
    then show ?thesis
      using Cons.IH by (simp add: row_area_def Let_def del: U_simps)
  next
    case False
    have t: "(let t = py_strip (case aba_idx of
                              Some i \<Rightarrow> if i < length row then row ! i else row_area area_idx row
                            | None \<Rightarrow> row_area area_idx row)
              in if t = [] then row_area area_idx row else t) =
             row_sheet aba_idx row (row_area area_idx row)"
      by (rule sheet_title_row_sheet [OF _ False]) (simp add: row_area_def)
    have a: "truthy ucd (case ativa_idx of
                       Some i \<Rightarrow> if i < length row then row ! i else U ''Sim''
                     | None \<Rightarrow> U ''Sim'') = row_active ucd ativa_idx row"
      using sim by (simp add: row_active_def split: option.split del: U_simps)
    have m: "parse_positive_int ucd (case max_idx of
                                   Some i \<Rightarrow> if i < length row then Some (row ! i) else None
                                 | None \<Rightarrow> None) = row_max ucd max_idx row"
      by (simp add: row_max_def parse_positive_int_def split: option.split)
    have "read_rows ucd area_idx aba_idx ativa_idx max_idx (row # data) =
            (if row_active ucd ativa_idx row
             then row_info ucd area_idx aba_idx max_idx row #
                    read_rows ucd area_idx aba_idx ativa_idx max_idx data
             else read_rows ucd area_idx aba_idx ativa_idx max_idx data)"
      using False t a m
      by (simp add: row_area_def [symmetric] row_info_def Let_def del: U_simps)
    then show ?thesis
      using False Cons.IH by simp
  qed
qed

text \<open>
  C8, as the code has it. The normalized text \<open>Sim\<close> being in the vocabulary:
  of a table with a header row in which a column of area names is found, the resolver
  returns the rows with a name that is not blank and an active field that is truthy, in
  their order, each with its sheet and quota; it raises the \<open>RuntimeError\<close> of the missing
  column when the header row has no such column, and it returns no area for a table
  without rows.
\<close>

theorem read_active_areas_spec:
  assumes "truthy ucd (U ''Sim'')"
    and "service log (Values_get sid (NOMES_SHEET @ U ''!A:Z'')) = Some result"
  shows "case resp_values result of
           None \<Rightarrow> fst (read_active_areas ucd service sid log) = Inr []
         | Some rows \<Rightarrow>
             (case rows of
                [] \<Rightarrow> fst (read_active_areas ucd service sid log) = Inr []
              | header # data \<Rightarrow>
                  (case find_col_indexes ucd header area_candidates of
                     None \<Rightarrow>
                       fst (read_active_areas ucd service sid log) =
                         Inl (RuntimeError Coluna_area_nao_encontrada)
                   | Some area_idx \<Rightarrow>
                       fst (read_active_areas ucd service sid log) =
                         Inr (map (row_info ucd area_idx
                                     (find_col_indexes ucd header aba_candidates)
                                     (find_col_indexes ucd header max_candidates))
                                (filter (\<lambda>row. row_area area_idx row \<noteq> [] \<and>
                                            row_active ucd
                                              (find_col_indexes ucd header ativa_candidates) row)
                                   data))))"
  using assms(2)
  by (simp add: read_active_areas_def execute_def read_rows_listed [OF assms(1)] Let_def
      split: option.split list.split del: U_simps)

theorem read_active_areas_spec_witness:
  "truthy example_unicode (U ''Sim'') \<and>
   find_col_indexes example_unicode [U ''Area'', U ''Ativa''] area_candidates = Some 0 \<and>
   fst (read_active_areas example_unicode
          (example_service []
             [[U ''Area'', U ''Ativa''], [U ''A'', U ''Sim''], [U ''B'', U ''Nao''],
              [U ''C'', U ''1'']] [])
          (U ''id'') []) =
     Inr [\<lparr>info_area = U ''A'', info_sheet = U ''A'', info_ativa = True, info_max_senhas = None\<rparr>,
          \<lparr>info_area = U ''C'', info_sheet = U ''C'', info_ativa = True, info_max_senhas = None\<rparr>]"
proof -
  let ?t = "[[U ''Area'', U ''Ativa''], [U ''A'', U ''Sim''], [U ''B'', U ''Nao''],
             [U ''C'', U ''1'']]"
  let ?h = "[U ''Area'', U ''Ativa'']"
  have a: "example_service [] ?t [] [] (Values_get (U ''id'') (NOMES_SHEET @ U ''!A:Z'')) =
             Some (empty_response\<lparr>resp_values := Some ?t\<rparr>)"
    by (simp add: example_service_def)
  have rv: "resp_values (empty_response\<lparr>resp_values := Some ?t\<rparr>) = Some ?t"
    by (simp add: empty_response_def)
  have c: "find_col_indexes example_unicode ?h area_candidates = Some 0"
    "find_col_indexes example_unicode ?h aba_candidates = None"
    "find_col_indexes example_unicode ?h ativa_candidates = Some 1"
    "find_col_indexes example_unicode ?h max_candidates = None"
    by (simp_all add: candidates_eval text_eval)
  have f: "map (row_info example_unicode 0 None None)
             (filter (\<lambda>row. row_area 0 row \<noteq> [] \<and> row_active example_unicode (Some 1) row)
                [[U ''A'', U ''Sim''], [U ''B'', U ''Nao''], [U ''C'', U ''1'']]) =
           [\<lparr>info_area = U ''A'', info_sheet = U ''A'', info_ativa = True, info_max_senhas = None\<rparr>,
            \<lparr>info_area = U ''C'', info_sheet = U ''C'', info_ativa = True, info_max_senhas = None\<rparr>]"
    by (simp add: row_info_def row_area_def row_active_def row_sheet_def row_max_def truthy_def
        text_eval)
  from read_active_areas_spec [where ucd = example_unicode
      and service = "example_service [] ?t []" and log = "[]", OF truthy_Sim a]
  have "fst (read_active_areas example_unicode (example_service [] ?t []) (U ''id'') []) =
          Inr (map (row_info example_unicode 0 None None)
             (filter (\<lambda>row. row_area 0 row \<noteq> [] \<and> row_active example_unicode (Some 1) row)
                [[U ''A'', U ''Sim''], [U ''B'', U ''Nao''], [U ''C'', U ''1'']]))"
    by (simp only: rv option.case list.case c)
  then show ?thesis
    using truthy_Sim by (simp only: f c simp_thms)
qed

theorem truthy_rows_counterexample:
  "find_col_indexes example_unicode [U ''Area'', U ''Ativa''] area_candidates = Some 0 \<and>
   truthy example_unicode (U ''Sim'') \<and>
   fst (read_active_areas example_unicode
          (example_service [] [[U ''Area'', U ''Ativa''], [U '' '', U ''Sim'']] [])
          (U ''id'') []) = Inr [] \<and>
   fst (read_active_areas example_unicode (example_service [] [] []) (U ''id'') []) = Inr []"
  by (simp add: read_active_areas_def execute_def example_service_def empty_response_def
      NOMES_SHEET_def candidates_eval truthy_def text_eval)
section \<open>Properties of the ticket document\<close>

lemma format_phone_number_ValueError:
  "format_phone_number ucd t = Inl exc \<Longrightarrow> \<exists>m. exc = ValueError m"
  by (auto simp: format_phone_number_def Let_def split: if_splits)

lemma render_ticket_page_bad_phone:
  assumes "format_phone_number ucd (dict_get data (U ''telefone'') []) = Inl exc"
  shows "render_ticket_page ucd drw logo_bytes pdf data = Inl exc"
  using assms by (simp add: render_ticket_page_def Let_def del: U_simps)

lemma render_ticket_page_drawn:
  assumes "format_phone_number ucd (dict_get data (U ''telefone'') []) = Inr tel"
    and "draws drw (ticket_page ucd logo_bytes data tel)"
  shows "render_ticket_page ucd drw logo_bytes pdf data =
           Inr (pdf @ [ticket_page ucd logo_bytes data tel])"
  using assms
  by (simp add: render_ticket_page_def draws_def ticket_page_def Let_def del: U_simps)

lemma render_ticket_page_not_drawn:
  assumes "format_phone_number ucd (dict_get data (U ''telefone'') []) = Inr tel"
    and "\<not> draws drw (ticket_page ucd logo_bytes data tel)"
  shows "\<exists>exc. render_ticket_page ucd drw logo_bytes pdf data = Inl exc \<and>
           (draw_qrcode drw (page_qr (ticket_page ucd logo_bytes data tel)) = Some exc \<or>
            draw_code128 drw (page_barcode (ticket_page ucd logo_bytes data tel)) = Some exc \<or>
            draw_fpdf drw (ticket_page ucd logo_bytes data tel) = Some exc)"
  using assms
  by (auto simp: render_ticket_page_def draws_def ticket_page_def Let_def
      split: option.splits simp del: U_simps)

lemma render_tickets_drawable:
  assumes "\<forall>t \<in> set tickets. drawable ucd drw logo_bytes t"
  shows "render_tickets ucd drw logo_bytes pdf tickets =
           Inr (pdf @ ticket_pages ucd logo_bytes tickets)"
  using assms
proof (induction tickets arbitrary: pdf)
  case Nil
  show ?case by (simp add: ticket_pages_def)
next
  case (Cons t tickets)
  from Cons.prems have d: "drawable ucd drw logo_bytes t"
    by simp
  then obtain tel where tel: "format_phone_number ucd (dict_get t (U ''telefone'') []) = Inr tel"
    unfolding drawable_def by blast
  then have tp: "ticket_phone ucd t = tel"
    by (simp add: ticket_phone_def del: U_simps)
  from d have "draws drw (ticket_page ucd logo_bytes t tel)"
    unfolding drawable_def tp by blast
  from render_ticket_page_drawn [OF tel this, of pdf]
  have p: "render_ticket_page ucd drw logo_bytes pdf t =
             Inr (pdf @ [ticket_page ucd logo_bytes t tel])" .
  from Cons.prems have "\<forall>t \<in> set tickets. drawable ucd drw logo_bytes t"
    by simp
  from Cons.IH [OF this, of "pdf @ [ticket_page ucd logo_bytes t tel]"]
  show ?case
    using p tp by (simp add: ticket_pages_def)
qed

lemma generate_tickets_pdf_drawable:
  assumes "\<forall>t \<in> set tickets. drawable ucd drw logo_bytes t"
  shows "generate_tickets_pdf ucd drw logo_bytes tickets =
           pdf_bytes drw (ticket_pages ucd logo_bytes tickets)"
  using render_tickets_drawable [OF assms, of "[]"]
  by (simp add: generate_tickets_pdf_def init_ticket_pdf_def)

text \<open>
  C5, as the code has it. Rendering a ticket fails whenever \<open>format_phone_number\<close> fails
  on its telephone, the empty text standing for a telephone that is missing, and then
  with that validation error. When the telephone is valid and the libraries draw the
  page, rendering adds that one page, whatever else is missing: the lines of the
  neighbourhood and of the time stamp are drawn with the empty text in their place (the
  social handle and the e-mail are not read). When one of the libraries raises, rendering
  fails with its exception. A batch of tickets whose telephones are all valid and whose
  pages are all drawn yields, if the output of the document does not raise, one page
  per ticket (and one empty page when there is no ticket).
\<close>

theorem render_ticket_page_spec:
  "(case format_phone_number ucd (dict_get data (U ''telefone'') []) of
      Inl exc \<Rightarrow>
        render_ticket_page ucd drw logo_bytes pdf data = Inl exc \<and> (\<exists>m. exc = ValueError m)
    | Inr tel \<Rightarrow>
        (draws drw (ticket_page ucd logo_bytes data tel) \<longrightarrow>
           render_ticket_page ucd drw logo_bytes pdf data =
             Inr (pdf @ [ticket_page ucd logo_bytes data tel]) \<and>
           page_lines (ticket_page ucd logo_bytes data tel) =
             [U ''Nome: '' @ format_name_upper ucd (dict_get data (U ''nome'') []),
              U ''Telefone: '' @ tel,
              U ''Bairro: '' @ py_strip (dict_get data (U ''bairro'') []),
              U ''Registro: '' @ py_strip (dict_get data (U ''ts_registro'') [])]) \<and>
        (\<not> draws drw (ticket_page ucd logo_bytes data tel) \<longrightarrow>
           (\<exists>exc. render_ticket_page ucd drw logo_bytes pdf data = Inl exc \<and>
              (draw_qrcode drw (page_qr (ticket_page ucd logo_bytes data tel)) = Some exc \<or>
               draw_code128 drw (page_barcode (ticket_page ucd logo_bytes data tel)) = Some exc \<or>
               draw_fpdf drw (ticket_page ucd logo_bytes data tel) = Some exc)))) \<and>
   ((\<forall>t \<in> set tickets. drawable ucd drw logo_bytes t) \<and>
    draw_output drw (ticket_pages ucd logo_bytes tickets) = None \<longrightarrow>
      (\<exists>doc. generate_tickets_pdf ucd drw logo_bytes tickets = Inr doc \<and>
             doc = (if tickets = [] then [blank_page] else ticket_pages ucd logo_bytes tickets) \<and>
             length doc = (if tickets = [] then 1 else length tickets)))"
proof (intro conjI impI)
  show "case format_phone_number ucd (dict_get data (U ''telefone'') []) of
      Inl exc \<Rightarrow>
        render_ticket_page ucd drw logo_bytes pdf data = Inl exc \<and> (\<exists>m. exc = ValueError m)
    | Inr tel \<Rightarrow>
        (draws drw (ticket_page ucd logo_bytes data tel) \<longrightarrow>
           render_ticket_page ucd drw logo_bytes pdf data =
             Inr (pdf @ [ticket_page ucd logo_bytes data tel]) \<and>
           page_lines (ticket_page ucd logo_bytes data tel) =
             [U ''Nome: '' @ format_name_upper ucd (dict_get data (U ''nome'') []),
              U ''Telefone: '' @ tel,
              U ''Bairro: '' @ py_strip (dict_get data (U ''bairro'') []),
              U ''Registro: '' @ py_strip (dict_get data (U ''ts_registro'') [])]) \<and>
        (\<not> draws drw (ticket_page ucd logo_bytes data tel) \<longrightarrow>
           (\<exists>exc. render_ticket_page ucd drw logo_bytes pdf data = Inl exc \<and>
              (draw_qrcode drw (page_qr (ticket_page ucd logo_bytes data tel)) = Some exc \<or>
               draw_code128 drw (page_barcode (ticket_page ucd logo_bytes data tel)) = Some exc \<or>
               draw_fpdf drw (ticket_page ucd logo_bytes data tel) = Some exc)))"
  proof (cases "format_phone_number ucd (dict_get data (U ''telefone'') [])")
    case (Inl exc)
    then show ?thesis
      using render_ticket_page_bad_phone [OF Inl, of drw logo_bytes pdf]
        format_phone_number_ValueError [OF Inl]
      by (simp del: U_simps)
  next
    case (Inr tel)
    have l: "page_lines (ticket_page ucd logo_bytes data tel) =
             [U ''Nome: '' @ format_name_upper ucd (dict_get data (U ''nome'') []),
              U ''Telefone: '' @ tel,
              U ''Bairro: '' @ py_strip (dict_get data (U ''bairro'') []),
              U ''Registro: '' @ py_strip (dict_get data (U ''ts_registro'') [])]"
      by (simp add: ticket_page_def)
    show ?thesis
      unfolding Inr sum.case
      using render_ticket_page_drawn [OF Inr, of drw logo_bytes pdf]
        render_ticket_page_not_drawn [OF Inr, of drw logo_bytes pdf] l
      by blast
  qed
next
  assume a: "(\<forall>t \<in> set tickets. drawable ucd drw logo_bytes t) \<and>
    draw_output drw (ticket_pages ucd logo_bytes tickets) = None"
  then have g: "generate_tickets_pdf ucd drw logo_bytes tickets =
                  pdf_bytes drw (ticket_pages ucd logo_bytes tickets)"
    using generate_tickets_pdf_drawable by blast
  have e: "ticket_pages ucd logo_bytes tickets = [] \<longleftrightarrow> tickets = []"
    by (simp add: ticket_pages_def)
  have n: "length (ticket_pages ucd logo_bytes tickets) = length tickets"
    by (simp add: ticket_pages_def)
  show "\<exists>doc. generate_tickets_pdf ucd drw logo_bytes tickets = Inr doc \<and>
             doc = (if tickets = [] then [blank_page] else ticket_pages ucd logo_bytes tickets) \<and>
             length doc = (if tickets = [] then 1 else length tickets)"
    using a e n unfolding g by (simp add: pdf_bytes_def)
qed

theorem render_ticket_page_spec_witness:
  "format_phone_number example_unicode
     (dict_get [(U ''nome'', U ''Ana''), (U ''telefone'', U ''92981231234'')] (U ''telefone'') []) =
     Inr (U ''(92) 98123-1234'') \<and>
   draws example_drawing
     (ticket_page example_unicode None
        [(U ''nome'', U ''Ana''), (U ''telefone'', U ''92981231234'')] (U ''(92) 98123-1234'')) \<and>
   render_ticket_page example_unicode example_drawing None []
     [(U ''nome'', U ''Ana''), (U ''telefone'', U ''92981231234'')] =
     Inr [ticket_page example_unicode None
            [(U ''nome'', U ''Ana''), (U ''telefone'', U ''92981231234'')]
            (U ''(92) 98123-1234'')] \<and>
   page_lines (ticket_page example_unicode None
                 [(U ''nome'', U ''Ana''), (U ''telefone'', U ''92981231234'')]
                 (U ''(92) 98123-1234'')) =
     [U ''Nome: ANA'', U ''Telefone: (92) 98123-1234'', U ''Bairro: '', U ''Registro: ''] \<and>
   \<not> draws example_drawing
     (ticket_page example_unicode None
        [(U ''senha'', U '' ''), (U ''telefone'', U ''92981231234'')] (U ''(92) 98123-1234'')) \<and>
   render_ticket_page example_unicode example_drawing None []
     [(U ''senha'', U '' ''), (U ''telefone'', U ''92981231234'')] =
     Inl (LibraryError (U ''Code128'')) \<and>
   drawable example_unicode example_drawing None
     [(U ''nome'', U ''Ana''), (U ''telefone'', U ''92981231234'')] \<and>
   drawable example_unicode example_drawing None [(U ''telefone'', U ''5592981231234'')] \<and>
   (\<exists>doc. generate_tickets_pdf example_unicode example_drawing None
             [[(U ''nome'', U ''Ana''), (U ''telefone'', U ''92981231234'')],
              [(U ''telefone'', U ''5592981231234'')]] = Inr doc \<and>
          length doc = 2) \<and>
   generate_tickets_pdf example_unicode example_drawing None [] = Inr [blank_page]"
proof -
  let ?d = "[(U ''nome'', U ''Ana''), (U ''telefone'', U ''92981231234'')]"
  let ?d' = "[(U ''telefone'', U ''5592981231234'')]"
  let ?e = "[(U ''senha'', U '' ''), (U ''telefone'', U ''92981231234'')]"
  let ?tel = "U ''(92) 98123-1234''"
  have t: "format_phone_number example_unicode (dict_get ?d (U ''telefone'') []) = Inr ?tel"
    "format_phone_number example_unicode (dict_get ?d' (U ''telefone'') []) = Inr ?tel"
    "format_phone_number example_unicode (dict_get ?e (U ''telefone'') []) = Inr ?tel"
    by (simp_all add: dict_get_def format_phone_number_def startswith_def text_eval)
  have tp: "ticket_phone example_unicode ?d = ?tel" "ticket_phone example_unicode ?d' = ?tel"
    unfolding ticket_phone_def t by simp_all
  have p: "page_lines (ticket_page example_unicode None ?d ?tel) =
             [U ''Nome: ANA'', U ''Telefone: (92) 98123-1234'', U ''Bairro: '', U ''Registro: '']"
    by (simp add: ticket_page_def dict_get_def format_name_upper_def text_eval)
  have b: "page_barcode (ticket_page example_unicode None ?d ?tel) = U ''0''"
    "page_barcode (ticket_page example_unicode None ?d' ?tel) = U ''0''"
    "page_barcode (ticket_page example_unicode None ?e ?tel) = []"
    by (simp_all add: ticket_page_def dict_get_def text_eval)
  have f: "draw_fpdf example_drawing (ticket_page example_unicode None ?d ?tel) = None"
    "draw_fpdf example_drawing (ticket_page example_unicode None ?d' ?tel) = None"
    "draw_fpdf example_drawing (ticket_page example_unicode None ?e ?tel) = None"
    by (simp_all add: example_drawing_def page_texts_def ticket_page_def dict_get_def
        format_name_upper_def text_eval)
  have dr: "draws example_drawing (ticket_page example_unicode None ?d ?tel)"
    "draws example_drawing (ticket_page example_unicode None ?d' ?tel)"
    "\<not> draws example_drawing (ticket_page example_unicode None ?e ?tel)"
    unfolding draws_def b f by (simp_all add: example_drawing_def)
  have lib: "\<And>exc. draw_qrcode example_drawing
                      (page_qr (ticket_page example_unicode None ?e ?tel)) = Some exc \<or>
                   draw_code128 example_drawing
                      (page_barcode (ticket_page example_unicode None ?e ?tel)) = Some exc \<or>
                   draw_fpdf example_drawing (ticket_page example_unicode None ?e ?tel) = Some exc
                   \<Longrightarrow> exc = LibraryError (U ''Code128'')"
    unfolding b f by (simp add: example_drawing_def)
  have da: "drawable example_unicode example_drawing None ?d"
    "drawable example_unicode example_drawing None ?d'"
    unfolding drawable_def tp using t dr by blast+
  then have all: "\<forall>t \<in> set [?d, ?d']. drawable example_unicode example_drawing None t"
    by simp
  have out: "\<And>pdf. draw_output example_drawing pdf = None"
    by (simp add: example_drawing_def)
  from render_ticket_page_spec [where ucd = example_unicode and drw = example_drawing
      and data = ?d and logo_bytes = None and pdf = "[]" and tickets = "[?d, ?d']"]
  have one: "render_ticket_page example_unicode example_drawing None [] ?d =
               Inr [ticket_page example_unicode None ?d ?tel]"
    and two: "\<exists>doc. generate_tickets_pdf example_unicode example_drawing None [?d, ?d'] = Inr doc \<and>
                 length doc = 2"
    unfolding t sum.case using dr(1) all out by (simp_all del: U_simps)
  from render_ticket_page_spec [where ucd = example_unicode and drw = example_drawing
      and data = ?e and logo_bytes = None and pdf = "[]" and tickets = "[]"]
  have three: "render_ticket_page example_unicode example_drawing None [] ?e =
                 Inl (LibraryError (U ''Code128''))"
    and four: "generate_tickets_pdf example_unicode example_drawing None [] = Inr [blank_page]"
    unfolding t sum.case using dr(3) lib out by (auto simp del: U_simps)
  show ?thesis
    using t(1) dr(1,3) one p three da two four by (intro conjI)
qed

theorem render_without_phone_counterexample:
  "render_ticket_page example_unicode example_drawing None []
     [(U ''area'', U ''A''), (U ''senha'', U ''7''), (U ''nome'', U ''ANA''),
      (U ''bairro'', U ''Centro'')] = Inl (ValueError Telefone_obrigatorio) \<and>
   generate_tickets_pdf example_unicode example_drawing None
     [[(U ''area'', U ''A''), (U ''senha'', U ''7''), (U ''nome'', U ''ANA''),
       (U ''bairro'', U ''Centro'')]] = Inl (ValueError Telefone_obrigatorio)"
  by (simp add: generate_tickets_pdf_def init_ticket_pdf_def render_ticket_page_def dict_get_def
      format_phone_number_def format_name_upper_def text_eval)
section \<open>Properties of the submission\<close>

lemma get_spreadsheet_id_fixed: "get_spreadsheet_id e = Inr HARDCODED_SPREADSHEET_ID"
  by (simp add: get_spreadsheet_id_def HARDCODED_SPREADSHEET_ID_def py_strip_def isspace_def)

lemma read_active_areas_log:
  "snd (read_active_areas ucd service sid log) =
     log @ [Values_get sid (NOMES_SHEET @ U ''!A:Z'')]"
  by (simp add: read_active_areas_def execute_def Let_def
      split: option.split list.split error.split del: U_simps)

lemma read_active_areas_error:
  "fst (read_active_areas ucd service sid log) = Inl x \<Longrightarrow>
     x = RuntimeError Erro_ao_ler_aba \<or> x = RuntimeError Coluna_area_nao_encontrada"
  by (auto simp: read_active_areas_def execute_def Let_def
      split: option.splits list.splits simp del: U_simps)

text \<open>
  C7, as the code has it. A submission with no area, with a name that is empty once
  trimmed, or with a telephone that \<open>format_phone_number\<close> refuses, raises an exception
  after no request at all or after the one that reads the table of areas: nothing is
  appended and no cell is written. With no area the exception is the validation error
  of the areas, and no request is made. Otherwise it is the exception of the
  credentials, when the service cannot be built (no request is made); or the
  configuration error of reading the table of areas, when that fails; or else, the
  table being read, the validation error of the name when the name is empty, and that of
  the telephone when it is not.
\<close>

theorem invalid_submission_no_mutation:
  assumes "areas = [] \<or> format_name_upper ucd nome = [] \<or>
           (\<exists>exc. format_phone_number ucd telefone = Inl exc)"
  shows "\<exists>exc new.
           submit_tickets ucd e areas nome telefone bairro rede_social email log =
             (Inl exc, log @ new) \<and>
           (new = [] \<or> new = [Values_get HARDCODED_SPREADSHEET_ID (NOMES_SHEET @ U ''!A:Z'')]) \<and>
           appended_rows new = [] \<and> cell_writes new = [] \<and>
           (areas = [] \<longrightarrow> exc = ValueError Selecione_area \<and> new = []) \<and>
           (areas \<noteq> [] \<longrightarrow>
              (case env_sheets_service e of
                 Inl x \<Rightarrow> exc = x \<and> new = []
               | Inr service \<Rightarrow>
                   (case fst (read_active_areas ucd service HARDCODED_SPREADSHEET_ID log) of
                      Inl x \<Rightarrow> exc = x \<and> (\<exists>m. exc = RuntimeError m)
                    | Inr infos \<Rightarrow>
                        (\<exists>m. exc = ValueError m) \<and>
                        (format_name_upper ucd nome = [] \<longrightarrow>
                           exc = ValueError Nome_obrigatorio) \<and>
                        (format_name_upper ucd nome \<noteq> [] \<longrightarrow>
                           format_phone_number ucd telefone = Inl exc))))"
proof (cases "areas = []")
  case True
  then show ?thesis
    by (simp add: submit_tickets_def io_raise_def)
next
  case False
  note areas = this
  show ?thesis
  proof (cases "env_sheets_service e")
    case (Inl exc)
    then show ?thesis
      using areas by (simp add: submit_tickets_def io_raise_def)
  next
    case (Inr service)
    obtain res log1 where
      ra: "read_active_areas ucd service HARDCODED_SPREADSHEET_ID log = (res, log1)"
      by (cases "read_active_areas ucd service HARDCODED_SPREADSHEET_ID log") auto
    with read_active_areas_log [of ucd service HARDCODED_SPREADSHEET_ID log]
    have log1: "log1 = log @ [Values_get HARDCODED_SPREADSHEET_ID (NOMES_SHEET @ U ''!A:Z'')]"
      by simp
    show ?thesis
    proof (cases res)
      case (Inl exc)
      with ra have "fst (read_active_areas ucd service HARDCODED_SPREADSHEET_ID log) = Inl exc"
        by simp
      from read_active_areas_error [OF this] have "\<exists>m. exc = RuntimeError m"
        by blast
      then show ?thesis
        using areas Inr ra log1 Inl
        by (simp add: submit_tickets_def get_spreadsheet_id_fixed io_bind_def del: U_simps)
    next
      case infos: (Inr infos)
      show ?thesis
      proof (cases "format_name_upper ucd nome = []")
        case True
        then show ?thesis
          using areas Inr ra log1 infos
          by (simp add: submit_tickets_def get_spreadsheet_id_fixed io_bind_def io_raise_def
              Let_def del: U_simps)
      next
        case False
        with assms areas obtain exc where exc: "format_phone_number ucd telefone = Inl exc"
          by auto
        from format_phone_number_ValueError [OF exc] obtain m where "exc = ValueError m" ..
        then show ?thesis
          using areas Inr ra log1 infos False exc
          by (simp add: submit_tickets_def get_spreadsheet_id_fixed io_bind_def io_raise_def
              Let_def del: U_simps)
      qed
    qed
  qed
qed

theorem invalid_submission_no_mutation_witness:
  "format_name_upper example_unicode (U ''  '') = [] \<and>
   submit_tickets example_unicode (example_env (example_service [] [[U ''Area'']] [])) [U ''A'']
     (U ''  '') (U ''92981231234'') [] [] [] [] =
     (Inl (ValueError Nome_obrigatorio),
      [Values_get HARDCODED_SPREADSHEET_ID (NOMES_SHEET @ U ''!A:Z'')]) \<and>
   format_phone_number example_unicode (U ''981231234'') = Inl (ValueError Telefone_11_digitos) \<and>
   submit_tickets example_unicode (example_env (example_service [] [[U ''Area'']] [])) [U ''A'']
     (U ''Ana'') (U ''981231234'') [] [] [] [] =
     (Inl (ValueError Telefone_11_digitos),
      [Values_get HARDCODED_SPREADSHEET_ID (NOMES_SHEET @ U ''!A:Z'')]) \<and>
   submit_tickets example_unicode (example_env (example_service [] [[U ''Area'']] [])) []
     (U ''Ana'') (U ''92981231234'') [] [] [] [] = (Inl (ValueError Selecione_area), [])"
proof -
  let ?e = "example_env (example_service [] [[U ''Area'']] [])"
  let ?get = "Values_get HARDCODED_SPREADSHEET_ID (NOMES_SHEET @ U ''!A:Z'')"
  have n: "format_name_upper example_unicode (U ''  '') = []"
    by (simp add: format_name_upper_def text_eval)
  have n': "format_name_upper example_unicode (U ''Ana'') \<noteq> []"
    by (simp add: format_name_upper_def text_eval)
  have p: "format_phone_number example_unicode (U ''981231234'') =
             Inl (ValueError Telefone_11_digitos)"
    by (simp add: format_phone_number_def startswith_def text_eval)
  have c: "find_col_indexes example_unicode [U ''Area''] area_candidates = Some 0"
    by (simp add: candidates_eval text_eval)
  have r: "read_active_areas example_unicode (example_service [] [[U ''Area'']] [])
             HARDCODED_SPREADSHEET_ID [] = (Inr [], [?get])"
    by (simp add: read_active_areas_def execute_def example_service_def empty_response_def c
        del: U_simps)
  have s: "env_sheets_service ?e = Inr (example_service [] [[U ''Area'']] [])"
    by (simp add: example_env_def)
  from invalid_submission_no_mutation [where ucd = example_unicode and areas = "[U ''A'']"
      and nome = "U ''  ''" and telefone = "U ''92981231234''" and e = ?e and bairro = "[]"
      and rede_social = "[]" and email = "[]" and log = "[]"] n
  obtain exc new where a0:
    "submit_tickets example_unicode ?e [U ''A''] (U ''  '') (U ''92981231234'') [] [] [] [] =
       (Inl exc, [] @ new)"
    "new = [] \<or> new = [?get]" "exc = ValueError Nome_obrigatorio"
    unfolding s sum.case r fst_conv by (auto simp del: U_simps)
  have a1: "submit_tickets example_unicode ?e [U ''A''] (U ''  '') (U ''92981231234'') [] [] [] [] =
              (Inl (ValueError Nome_obrigatorio), [?get])"
    by (simp add: submit_tickets_def get_spreadsheet_id_fixed io_bind_def io_raise_def s r n
        Let_def del: U_simps)
  from invalid_submission_no_mutation [where ucd = example_unicode and areas = "[U ''A'']"
      and nome = "U ''Ana''" and telefone = "U ''981231234''" and e = ?e and bairro = "[]"
      and rede_social = "[]" and email = "[]" and log = "[]"] p n'
  obtain exc' new' where b0:
    "submit_tickets example_unicode ?e [U ''A''] (U ''Ana'') (U ''981231234'') [] [] [] [] =
       (Inl exc', [] @ new')"
    "new' = [] \<or> new' = [?get]" "exc' = ValueError Telefone_11_digitos"
    unfolding s sum.case r fst_conv by (auto simp del: U_simps)
  have b1: "submit_tickets example_unicode ?e [U ''A''] (U ''Ana'') (U ''981231234'') [] [] [] [] =
              (Inl (ValueError Telefone_11_digitos), [?get])"
    using n' by (simp add: submit_tickets_def get_spreadsheet_id_fixed io_bind_def io_raise_def s r p
        Let_def del: U_simps)
  from invalid_submission_no_mutation [where ucd = example_unicode and areas = "[]"
      and nome = "U ''Ana''" and telefone = "U ''92981231234''" and e = ?e and bairro = "[]"
      and rede_social = "[]" and email = "[]" and log = "[]"]
  have c1: "submit_tickets example_unicode ?e [] (U ''Ana'') (U ''92981231234'') [] [] [] [] =
              (Inl (ValueError Selecione_area), [])"
    by (auto simp del: U_simps)
  show ?thesis
    using n p a1 b1 c1 by (simp only: simp_thms)
qed

theorem invalid_name_configuration_error_counterexample:
  "format_name_upper example_unicode (U ''  '') = [] \<and>
   submit_tickets example_unicode
     (example_env (example_service [] [[U ''Nome'', U ''Ativa'']] [])) [U ''A'']
     (U ''  '') (U ''92981231234'') [] [] [] [] =
     (Inl (RuntimeError Coluna_area_nao_encontrada),
      [Values_get HARDCODED_SPREADSHEET_ID (NOMES_SHEET @ U ''!A:Z'')])"
proof -
  have c: "find_col_indexes example_unicode [U ''Nome'', U ''Ativa''] area_candidates = None"
    by (simp add: candidates_eval text_eval)
  have r: "read_active_areas example_unicode (example_service [] [[U ''Nome'', U ''Ativa'']] [])
             HARDCODED_SPREADSHEET_ID [] =
             (Inl (RuntimeError Coluna_area_nao_encontrada),
              [Values_get HARDCODED_SPREADSHEET_ID (NOMES_SHEET @ U ''!A:Z'')])"
    by (simp add: read_active_areas_def execute_def example_service_def empty_response_def c
        del: U_simps)
  have n: "format_name_upper example_unicode (U ''  '') = []"
    by (simp add: format_name_upper_def text_eval)
  show ?thesis
    by (simp add: submit_tickets_def get_spreadsheet_id_fixed io_bind_def io_raise_def
        example_env_def r n Let_def del: U_simps)
qed

end
